theory Spec2Isabelle
  imports Complex_Main "HOL-Library.Sublist"
begin

section \<open>JavaScript numbers\<close>

text \<open>
  The engine computes on JavaScript numbers. A number is modelled as an exact real
  extended with the three special values the engine can produce and test for:
  the two infinities and NaN. The special values follow IEEE 754 as JavaScript
  applies it (NaN absorbs, \<open>\<infinity> - \<infinity>\<close>, \<open>0 \<times> \<infinity>\<close>, \<open>0 / 0\<close> and
  \<open>\<infinity> / \<infinity>\<close> are NaN, every comparison with NaN is false). Two things are idealised:
  finite results are exact (no rounding, overflow or underflow), and zero has no sign
  (a finite nonzero number divided by zero gives the infinity of the dividend's sign).
  The statements that depend on the rounding are made about the double-precision
  embedding of the section on double precision below.
\<close>

datatype number = Num real | PosInf | NegInf | NaN

fun isNaN :: "number \<Rightarrow> bool" where
  "isNaN NaN = True"
| "isNaN _ = False"

text \<open>The sign of a number that is not NaN, as \<open>-1\<close>, \<open>0\<close> or \<open>1\<close>.\<close>

fun sign_of :: "number \<Rightarrow> real" where
  "sign_of (Num r) = sgn r"
| "sign_of PosInf = 1"
| "sign_of NegInf = - 1"
| "sign_of NaN = 0"

definition inf_of_sign :: "real \<Rightarrow> number" where
  "inf_of_sign s = (if s = 0 then NaN else if 0 < s then PosInf else NegInf)"

instantiation number :: "{uminus, plus, minus, times, inverse, ord}"
begin

fun uminus_number :: "number \<Rightarrow> number" where
  "uminus_number (Num r) = Num (- r)"
| "uminus_number PosInf = NegInf"
| "uminus_number NegInf = PosInf"
| "uminus_number NaN = NaN"

fun plus_number :: "number \<Rightarrow> number \<Rightarrow> number" where
  "plus_number NaN _ = NaN"
| "plus_number _ NaN = NaN"
| "plus_number (Num x) (Num y) = Num (x + y)"
| "plus_number PosInf NegInf = NaN"
| "plus_number NegInf PosInf = NaN"
| "plus_number PosInf _ = PosInf"
| "plus_number _ PosInf = PosInf"
| "plus_number NegInf _ = NegInf"
| "plus_number _ NegInf = NegInf"

definition minus_number :: "number \<Rightarrow> number \<Rightarrow> number" where
  "minus_number x y = x + (- y)"

fun times_number :: "number \<Rightarrow> number \<Rightarrow> number" where
  "times_number NaN _ = NaN"
| "times_number _ NaN = NaN"
| "times_number (Num x) (Num y) = Num (x * y)"
| "times_number x y = inf_of_sign (sign_of x * sign_of y)"

fun divide_number :: "number \<Rightarrow> number \<Rightarrow> number" where
  "divide_number NaN _ = NaN"
| "divide_number _ NaN = NaN"
| "divide_number (Num x) (Num y) = (if y = 0 then inf_of_sign (sgn x) else Num (x / y))"
| "divide_number (Num x) _ = Num 0"
| "divide_number x (Num y) = inf_of_sign (sign_of x * (if y < 0 then - 1 else 1))"
| "divide_number _ _ = NaN"

fun inverse_number :: "number \<Rightarrow> number" where
  "inverse_number NaN = NaN"
| "inverse_number (Num y) = (if y = 0 then PosInf else Num (1 / y))"
| "inverse_number _ = Num 0"

fun less_eq_number :: "number \<Rightarrow> number \<Rightarrow> bool" where
  "less_eq_number NaN _ = False"
| "less_eq_number _ NaN = False"
| "less_eq_number (Num x) (Num y) = (x \<le> y)"
| "less_eq_number NegInf _ = True"
| "less_eq_number _ PosInf = True"
| "less_eq_number _ _ = False"

fun less_number :: "number \<Rightarrow> number \<Rightarrow> bool" where
  "less_number NaN _ = False"
| "less_number _ NaN = False"
| "less_number (Num x) (Num y) = (x < y)"
| "less_number PosInf _ = False"
| "less_number _ NegInf = False"
| "less_number _ _ = True"

instance ..

end

text \<open>\<open>Math.sqrt\<close> and \<open>Math.max\<close> (two arguments).\<close>

fun Math_sqrt :: "number \<Rightarrow> number" where
  "Math_sqrt (Num x) = (if x < 0 then NaN else Num (sqrt x))"
| "Math_sqrt PosInf = PosInf"
| "Math_sqrt NegInf = NaN"
| "Math_sqrt NaN = NaN"

definition Math_max :: "number \<Rightarrow> number \<Rightarrow> number" where
  "Math_max x y = (if isNaN x \<or> isNaN y then NaN else if x \<le> y then y else x)"


section \<open>Data model\<close>

record BeamInput =
  b :: number
  h :: number
  d :: number
  d_prime :: number
  fc :: number
  fy :: number
  Es :: number
  As :: number
  As_prime :: number

datatype SectionType = tension_controlled | transition | compression_controlled

record BeamResults =
  beta1 :: number
  a :: number
  c :: number
  epsilon_t :: number
  epsilon_y :: number
  epsilon_cu :: number
  rho :: number
  rho_b :: number
  rho_max :: number
  rho_min :: number
  Mn :: number
  Mn_kip_ft :: number
  phi :: number
  phiMn :: number
  phiMn_kip_ft :: number
  sectionType :: SectionType
  isAdequatelyReinforced :: bool
  isNotOverReinforced :: bool
  steelYields :: bool
  warnings :: "string list"

record RequiredSteel =
  As_required :: number
  isValid :: bool
  message :: string

section \<open>The formula functions\<close>

text \<open>
  Each function is written as an abstraction over the parameter names of the source,
  which the record fields above share. A parameter with a default value
  (\<open>epsilon_cu = EPSILON_CU\<close>) is an ordinary parameter here, and the callers, which
  all omit it, pass \<open>EPSILON_CU\<close>.
\<close>

definition EPSILON_CU :: number where
  "EPSILON_CU = Num 0.003"

definition calculateBeta1 :: "number \<Rightarrow> number" where
  "calculateBeta1 = (\<lambda>fc.
     if fc \<le> Num 4000 then Num 0.85
     else let beta1 = Num 0.85 - Num 0.05 * ((fc - Num 4000) / Num 1000)
          in Math_max beta1 (Num 0.65))"

definition calculateEpsilonY :: "number \<Rightarrow> number \<Rightarrow> number" where
  "calculateEpsilonY = (\<lambda>fy Es. fy / Es)"

definition calculateStressBlockDepth :: "number \<Rightarrow> number \<Rightarrow> number \<Rightarrow> number \<Rightarrow> number" where
  "calculateStressBlockDepth = (\<lambda>As fy fc b. (As * fy) / (Num 0.85 * fc * b))"

definition calculateNeutralAxisDepth :: "number \<Rightarrow> number \<Rightarrow> number" where
  "calculateNeutralAxisDepth = (\<lambda>a beta1. a / beta1)"

definition calculateTensionStrain :: "number \<Rightarrow> number \<Rightarrow> number \<Rightarrow> number" where
  "calculateTensionStrain = (\<lambda>d c epsilon_cu.
     if c \<le> Num 0 then PosInf else epsilon_cu * (d - c) / c)"

definition calculatePhi :: "number \<Rightarrow> number \<Rightarrow> number" where
  "calculatePhi = (\<lambda>epsilon_t epsilon_y.
     if epsilon_t \<ge> Num 0.005 then Num 0.90
     else if epsilon_t \<le> epsilon_y then Num 0.65
     else Num 0.65 + Num 0.25 * (epsilon_t - epsilon_y) / (Num 0.005 - epsilon_y))"

definition classifySection :: "number \<Rightarrow> number \<Rightarrow> SectionType" where
  "classifySection = (\<lambda>epsilon_t epsilon_y.
     if epsilon_t \<ge> Num 0.005 then tension_controlled
     else if epsilon_t \<le> epsilon_y then compression_controlled
     else transition)"

definition calculateRhoBalanced :: "number \<Rightarrow> number \<Rightarrow> number \<Rightarrow> number \<Rightarrow> number \<Rightarrow> number" where
  "calculateRhoBalanced = (\<lambda>fc fy beta1 epsilon_y epsilon_cu.
     (Num 0.85 * beta1 * fc / fy) * (epsilon_cu / (epsilon_cu + epsilon_y)))"

definition calculateRhoMax :: "number \<Rightarrow> number \<Rightarrow> number \<Rightarrow> number \<Rightarrow> number" where
  "calculateRhoMax = (\<lambda>fc fy beta1 epsilon_cu.
     let epsilon_t_min = Num 0.004
     in (Num 0.85 * beta1 * fc / fy) * (epsilon_cu / (epsilon_cu + epsilon_t_min)))"

definition calculateRhoMin :: "number \<Rightarrow> number \<Rightarrow> number" where
  "calculateRhoMin = (\<lambda>fc fy.
     let rho1 = (Num 3 * Math_sqrt fc) / fy;
         rho2 = Num 200 / fy
     in Math_max rho1 rho2)"

definition calculateMn :: "number \<Rightarrow> number \<Rightarrow> number \<Rightarrow> number \<Rightarrow> number" where
  "calculateMn = (\<lambda>As fy d a. As * fy * (d - a / Num 2))"

definition convertToKipFt :: "number \<Rightarrow> number" where
  "convertToKipFt = (\<lambda>moment_lb_in. moment_lb_in / (Num 1000 * Num 12))"

section \<open>Number formatting\<close>

text \<open>
  \<open>Number.prototype.toFixed\<close> belongs to the JavaScript runtime, not to the engine,
  so the two functions that build messages with it take it as their first argument.
  \<open>toFixed_dec\<close> is the instance used to run the engine on concrete inputs: ECMAScript's
  digit algorithm (the integer \<open>n\<close> nearest to \<open>x \<times> 10\<^sup>f\<close>, the larger one on a tie,
  padded with zeros to \<open>f + 1\<close> digits, the sign of a negative \<open>x\<close> in front), applied to
  the exact value. From \<open>10\<^sup>2\<^sup>1\<close> on ECMAScript prints the shortest exponent form of the
  double instead, which has no counterpart on exact values; \<open>toFixed_dec\<close> keeps printing
  digits there, and no statement below evaluates it on such a value.
\<close>

fun digits_of :: "nat \<Rightarrow> string" where
  "digits_of n =
     (if n < 10 then [''0123456789'' ! n]
      else digits_of (n div 10) @ [''0123456789'' ! (n mod 10)])"

definition fixed_digits :: "nat \<Rightarrow> nat \<Rightarrow> string" where
  "fixed_digits n f =
     (let m = digits_of n;
          m = (if length m \<le> f then replicate (f + 1 - length m) (CHR ''0'') @ m else m);
          k = length m
      in if f = 0 then m else take (k - f) m @ ''.'' @ drop (k - f) m)"

fun toFixed_dec :: "number \<Rightarrow> nat \<Rightarrow> string" where
  "toFixed_dec NaN f = ''NaN''"
| "toFixed_dec PosInf f = ''Infinity''"
| "toFixed_dec NegInf f = ''-Infinity''"
| "toFixed_dec (Num x) f =
     (if x < 0 then ''-'' else []) @ fixed_digits (nat \<lfloor>\<bar>x\<bar> * 10 ^ f + 1 / 2\<rfloor>) f"

section \<open>The warning messages\<close>

text \<open>The seven messages of \<open>analyzeBeam\<close>, in the order in which it appends them.\<close>

definition msg_steel_not_yield :: string where
  "msg_steel_not_yield =
     ''Warning: Tension steel does not yield at ultimate. Section is over-reinforced.''"

definition msg_below_minimum :: "(number \<Rightarrow> nat \<Rightarrow> string) \<Rightarrow> number \<Rightarrow> number \<Rightarrow> string" where
  "msg_below_minimum = (\<lambda>toFixed rho rho_min.
     ''Warning: Reinforcement ratio ('' @ toFixed (rho * Num 100) 3
       @ ''%) is less than minimum ('' @ toFixed (rho_min * Num 100) 3
       @ ''%). Per ACI 318, As,min requirements may govern.'')"

definition msg_above_maximum :: "(number \<Rightarrow> nat \<Rightarrow> string) \<Rightarrow> number \<Rightarrow> number \<Rightarrow> string" where
  "msg_above_maximum = (\<lambda>toFixed rho rho_max.
     ''Warning: Reinforcement ratio ('' @ toFixed (rho * Num 100) 3
       @ ''%) exceeds maximum ('' @ toFixed (rho_max * Num 100) 3
       @ ''%). Section may not have adequate ductility.'')"

definition msg_compression_controlled :: string where
  "msg_compression_controlled =
     ''Warning: Section is compression-controlled. Consider reducing reinforcement for better ductility.''"

definition msg_transition :: string where
  "msg_transition =
     ''Note: Section is in the transition zone between tension and compression controlled.''"

definition msg_stress_block :: string where
  "msg_stress_block =
     ''Error: Stress block depth exceeds effective depth. Check input values.''"

definition msg_neutral_axis :: string where
  "msg_neutral_axis =
     ''Error: Neutral axis is at or below tension steel. Invalid configuration.''"

section \<open>The orchestrator\<close>

text \<open>
  \<open>if (cond) { warnings.push(m); }\<close> is explicit state passing: each conditional
  append rebinds the list.
\<close>

definition push_when :: "bool \<Rightarrow> string \<Rightarrow> string list \<Rightarrow> string list" where
  "push_when cond m ws = (if cond then ws @ [m] else ws)"

definition analyzeBeam :: "(number \<Rightarrow> nat \<Rightarrow> string) \<Rightarrow> BeamInput \<Rightarrow> BeamResults" where
  "analyzeBeam = (\<lambda>toFixed input.
     let b = b input; d = d input; fc = fc input; fy = fy input; Es = Es input; As = As input;
         warnings = [];
         beta1 = calculateBeta1 fc;
         epsilon_y = calculateEpsilonY fy Es;
         a = calculateStressBlockDepth As fy fc b;
         c = calculateNeutralAxisDepth a beta1;
         epsilon_t = calculateTensionStrain d c EPSILON_CU;
         phi = calculatePhi epsilon_t epsilon_y;
         sectionType = classifySection epsilon_t epsilon_y;
         rho = As / (b * d);
         rho_b = calculateRhoBalanced fc fy beta1 epsilon_y EPSILON_CU;
         rho_max = calculateRhoMax fc fy beta1 EPSILON_CU;
         rho_min = calculateRhoMin fc fy;
         Mn = calculateMn As fy d a;
         phiMn = phi * Mn;
         steelYields = (epsilon_t \<ge> epsilon_y);
         isAdequatelyReinforced = (rho \<ge> rho_min);
         isNotOverReinforced = (rho \<le> rho_max);
         warnings = push_when (\<not> steelYields) msg_steel_not_yield warnings;
         warnings = push_when (\<not> isAdequatelyReinforced)
                      (msg_below_minimum toFixed rho rho_min) warnings;
         warnings = push_when (\<not> isNotOverReinforced)
                      (msg_above_maximum toFixed rho rho_max) warnings;
         warnings = push_when (sectionType = compression_controlled)
                      msg_compression_controlled warnings;
         warnings = push_when (sectionType = transition) msg_transition warnings;
         warnings = push_when (a > d) msg_stress_block warnings;
         warnings = push_when (c \<ge> d) msg_neutral_axis warnings
     in \<lparr> beta1 = beta1, a = a, c = c,
          epsilon_t = epsilon_t, epsilon_y = epsilon_y, epsilon_cu = EPSILON_CU,
          rho = rho, rho_b = rho_b, rho_max = rho_max, rho_min = rho_min,
          Mn = Mn, Mn_kip_ft = convertToKipFt Mn,
          phi = phi, phiMn = phiMn, phiMn_kip_ft = convertToKipFt phiMn,
          sectionType = sectionType,
          isAdequatelyReinforced = isAdequatelyReinforced,
          isNotOverReinforced = isNotOverReinforced,
          steelYields = steelYields,
          warnings = warnings \<rparr>)"

section \<open>The required-steel solver\<close>

definition calculateRequiredSteel ::
  "(number \<Rightarrow> nat \<Rightarrow> string) \<Rightarrow> number \<Rightarrow> number \<Rightarrow> number \<Rightarrow> number \<Rightarrow> number \<Rightarrow> RequiredSteel" where
  "calculateRequiredSteel = (\<lambda>toFixed Mu b d fc fy.
     let phi = Num 0.9;
         R_n = Mu / (phi * b * d * d);
         rho_required =
           (Num 0.85 * fc / fy) * (Num 1 - Math_sqrt (Num 1 - (Num 2 * R_n) / (Num 0.85 * fc)))
     in if isNaN rho_required \<or> rho_required < Num 0
        then \<lparr> As_required = Num 0, isValid = False,
               message = ''Section cannot carry the applied moment. Increase section size.'' \<rparr>
        else let As_required = rho_required * b * d;
                 rho_max = calculateRhoMax fc fy (calculateBeta1 fc) EPSILON_CU
             in if rho_required > rho_max
                then \<lparr> As_required = As_required, isValid = False,
                       message = ''Required reinforcement ratio ('' @ toFixed (rho_required * Num 100) 3
                         @ ''%) exceeds maximum ('' @ toFixed (rho_max * Num 100) 3 @ ''%).'' \<rparr>
                else \<lparr> As_required = As_required, isValid = True, message = ''OK'' \<rparr>)"

section \<open>A sample input\<close>

text \<open>The default input of the application (\<open>DEFAULT_BEAM_INPUT\<close> in \<open>types/beam.ts\<close>).\<close>

definition DEFAULT_BEAM_INPUT :: BeamInput where
  "DEFAULT_BEAM_INPUT =
     \<lparr> b = Num 12, h = Num 24, d = Num 21.5, d_prime = Num 2.5,
       fc = Num 4000, fy = Num 60000, Es = Num 29000000,
       As = Num 3.0, As_prime = Num 0 \<rparr>"

section \<open>Auxiliary notions for the statements\<close>

text \<open>The real value of a finite number (and \<open>0\<close> for the special values).\<close>

fun the_real :: "number \<Rightarrow> real" where
  "the_real (Num r) = r"
| "the_real _ = 0"

text \<open>A positive quantity of the engineer: a finite number above zero.\<close>

fun finite_positive :: "number \<Rightarrow> bool" where
  "finite_positive (Num r) = (0 < r)"
| "finite_positive _ = False"

text \<open>
  The local variables \<open>R_n\<close> and \<open>rho_required\<close> of \<open>calculateRequiredSteel\<close>, and the
  argument of its square root, as functions of the arguments.
\<close>

definition required_R_n :: "number \<Rightarrow> number \<Rightarrow> number \<Rightarrow> number" where
  "required_R_n = (\<lambda>Mu b d. Mu / (Num 0.9 * b * d * d))"

definition required_radicand :: "number \<Rightarrow> number \<Rightarrow> number \<Rightarrow> number \<Rightarrow> number" where
  "required_radicand = (\<lambda>Mu b d fc.
     Num 1 - (Num 2 * required_R_n Mu b d) / (Num 0.85 * fc))"

definition required_rho :: "number \<Rightarrow> number \<Rightarrow> number \<Rightarrow> number \<Rightarrow> number \<Rightarrow> number" where
  "required_rho = (\<lambda>Mu b d fc fy.
     (Num 0.85 * fc / fy) * (Num 1 - Math_sqrt (required_radicand Mu b d fc)))"

section \<open>Double precision\<close>

text \<open>
  JavaScript evaluates every arithmetic operation in IEEE 754 binary64, rounding the
  exact result to the nearest double, ties to the even significand. Where a statement
  depends on this rounding it is made about a second embedding of the functions
  concerned, on the same type of numbers: each operation of the source is followed by
  the rounding \<open>rnd\<close>, and each decimal literal is read by \<open>lit\<close>. The integer literals
  \<open>4000\<close> and \<open>1000\<close> are doubles and are written as they are. Zero has no sign here
  either. The arguments of these functions range over all numbers, the doubles among
  them, so that a statement proved for all arguments holds of every double.

  A double is \<open>n \<times> 2\<^sup>e\<^sup>-\<^sup>5\<^sup>2\<close> with an integer \<open>\<bar>n\<bar> \<le> 2\<^sup>5\<^sup>3\<close> and \<open>e \<ge> -1022\<close>. The
  exponent \<open>binade x\<close> of a real is that of its binade, the smallest one for the
  subnormal range; \<open>ulp x\<close> is the spacing of the doubles there; \<open>nearest x\<close> rounds
  \<open>x\<close> to a multiple of \<open>ulp x\<close>; a result of magnitude \<open>2\<^sup>1\<^sup>0\<^sup>2\<^sup>4\<close> or more overflows to
  the infinity of its sign.
\<close>

definition round_even :: "real \<Rightarrow> int" where
  "round_even x =
     (let n = \<lfloor>x\<rfloor>; r = x - of_int n
      in if r < 1 / 2 then n else if 1 / 2 < r then n + 1 else if even n then n else n + 1)"

definition binade :: "real \<Rightarrow> int" where
  "binade x = max (- 1022) \<lfloor>log 2 \<bar>x\<bar>\<rfloor>"

definition ulp :: "real \<Rightarrow> real" where
  "ulp x = 2 powi (binade x - 52)"

definition nearest :: "real \<Rightarrow> real" where
  "nearest x = of_int (round_even (x / ulp x)) * ulp x"

definition to_float64 :: "real \<Rightarrow> number" where
  "to_float64 x =
     (if x = 0 then Num 0
      else let m = nearest x
           in if 2 powi 1024 \<le> \<bar>m\<bar> then (if 0 < x then PosInf else NegInf) else Num m)"

fun rnd :: "number \<Rightarrow> number" where
  "rnd (Num x) = to_float64 x"
| "rnd x = x"

text \<open>A decimal literal of the source denotes the double nearest to it.\<close>

definition lit :: "real \<Rightarrow> number" where
  "lit x = to_float64 x"

text \<open>The formula functions, every operation rounded.\<close>

definition EPSILON_CU_f64 :: number where
  "EPSILON_CU_f64 = lit 0.003"

definition calculateBeta1_f64 :: "number \<Rightarrow> number" where
  "calculateBeta1_f64 = (\<lambda>fc.
     if fc \<le> Num 4000 then lit 0.85
     else let beta1 = rnd (lit 0.85 - rnd (lit 0.05 * rnd (rnd (fc - Num 4000) / Num 1000)))
          in Math_max beta1 (lit 0.65))"

definition calculateStressBlockDepth_f64 :: "number \<Rightarrow> number \<Rightarrow> number \<Rightarrow> number \<Rightarrow> number" where
  "calculateStressBlockDepth_f64 = (\<lambda>As fy fc b.
     rnd (rnd (As * fy) / rnd (rnd (lit 0.85 * fc) * b)))"

definition calculateNeutralAxisDepth_f64 :: "number \<Rightarrow> number \<Rightarrow> number" where
  "calculateNeutralAxisDepth_f64 = (\<lambda>a beta1. rnd (a / beta1))"

definition calculateTensionStrain_f64 :: "number \<Rightarrow> number \<Rightarrow> number \<Rightarrow> number" where
  "calculateTensionStrain_f64 = (\<lambda>d c epsilon_cu.
     if c \<le> Num 0 then PosInf else rnd (rnd (epsilon_cu * rnd (d - c)) / c))"

text \<open>
  The local variables \<open>a\<close>, \<open>c\<close>, \<open>epsilon_t\<close> and \<open>rho\<close> of \<open>analyzeBeam\<close> in double
  precision, as functions of the input: the stress-block depth, the neutral-axis depth
  (with \<open>beta1 = calculateBeta1(fc)\<close>), the tension strain (with the default
  \<open>epsilon_cu\<close>) and the reinforcement ratio \<open>As / (b * d)\<close>.
\<close>

definition a_f64 :: "BeamInput \<Rightarrow> number" where
  "a_f64 inp = calculateStressBlockDepth_f64 (As inp) (fy inp) (fc inp) (b inp)"

definition c_f64 :: "BeamInput \<Rightarrow> number" where
  "c_f64 inp = calculateNeutralAxisDepth_f64 (a_f64 inp) (calculateBeta1_f64 (fc inp))"

definition epsilon_t_f64 :: "BeamInput \<Rightarrow> number" where
  "epsilon_t_f64 inp = calculateTensionStrain_f64 (d inp) (c_f64 inp) EPSILON_CU_f64"

definition rho_f64 :: "BeamInput \<Rightarrow> number" where
  "rho_f64 inp = rnd (As inp / rnd (b inp * d inp))"

section \<open>The fields of the result\<close>

text \<open>
  Each field of the record that \<open>analyzeBeam\<close> returns, read off its definition and
  expressed through the input and the fields computed before it.
\<close>

lemmas analyzeBeam_unfold = analyzeBeam_def Let_def BeamResults.select_convs

lemma analyzeBeam_beta1: "beta1 (analyzeBeam fmt inp) = calculateBeta1 (fc inp)"
  and analyzeBeam_epsilon_y: "epsilon_y (analyzeBeam fmt inp) = calculateEpsilonY (fy inp) (Es inp)"
  and analyzeBeam_epsilon_cu: "epsilon_cu (analyzeBeam fmt inp) = EPSILON_CU"
  and analyzeBeam_a:
    "a (analyzeBeam fmt inp) = calculateStressBlockDepth (As inp) (fy inp) (fc inp) (b inp)"
  and analyzeBeam_c:
    "c (analyzeBeam fmt inp)
       = calculateNeutralAxisDepth (a (analyzeBeam fmt inp)) (beta1 (analyzeBeam fmt inp))"
  and analyzeBeam_epsilon_t:
    "epsilon_t (analyzeBeam fmt inp)
       = calculateTensionStrain (d inp) (c (analyzeBeam fmt inp)) EPSILON_CU"
  and analyzeBeam_phi:
    "phi (analyzeBeam fmt inp)
       = calculatePhi (epsilon_t (analyzeBeam fmt inp)) (epsilon_y (analyzeBeam fmt inp))"
  and analyzeBeam_sectionType:
    "sectionType (analyzeBeam fmt inp)
       = classifySection (epsilon_t (analyzeBeam fmt inp)) (epsilon_y (analyzeBeam fmt inp))"
  by (simp_all only: analyzeBeam_unfold)

lemma analyzeBeam_rho: "rho (analyzeBeam fmt inp) = As inp / (b inp * d inp)"
  and analyzeBeam_rho_b:
    "rho_b (analyzeBeam fmt inp)
       = calculateRhoBalanced (fc inp) (fy inp) (beta1 (analyzeBeam fmt inp))
           (epsilon_y (analyzeBeam fmt inp)) EPSILON_CU"
  and analyzeBeam_rho_max:
    "rho_max (analyzeBeam fmt inp)
       = calculateRhoMax (fc inp) (fy inp) (beta1 (analyzeBeam fmt inp)) EPSILON_CU"
  and analyzeBeam_rho_min: "rho_min (analyzeBeam fmt inp) = calculateRhoMin (fc inp) (fy inp)"
  and analyzeBeam_Mn:
    "Mn (analyzeBeam fmt inp) = calculateMn (As inp) (fy inp) (d inp) (a (analyzeBeam fmt inp))"
  and analyzeBeam_phiMn:
    "phiMn (analyzeBeam fmt inp) = phi (analyzeBeam fmt inp) * Mn (analyzeBeam fmt inp)"
  and analyzeBeam_Mn_kip_ft:
    "Mn_kip_ft (analyzeBeam fmt inp) = convertToKipFt (Mn (analyzeBeam fmt inp))"
  and analyzeBeam_phiMn_kip_ft:
    "phiMn_kip_ft (analyzeBeam fmt inp) = convertToKipFt (phiMn (analyzeBeam fmt inp))"
  by (simp_all only: analyzeBeam_unfold)

lemma analyzeBeam_steelYields:
    "steelYields (analyzeBeam fmt inp)
       = (epsilon_t (analyzeBeam fmt inp) \<ge> epsilon_y (analyzeBeam fmt inp))"
  and analyzeBeam_isAdequatelyReinforced:
    "isAdequatelyReinforced (analyzeBeam fmt inp)
       = (rho (analyzeBeam fmt inp) \<ge> rho_min (analyzeBeam fmt inp))"
  and analyzeBeam_isNotOverReinforced:
    "isNotOverReinforced (analyzeBeam fmt inp)
       = (rho (analyzeBeam fmt inp) \<le> rho_max (analyzeBeam fmt inp))"
  by (simp_all only: analyzeBeam_unfold)

lemma analyzeBeam_warnings:
  "warnings (analyzeBeam fmt inp) =
     push_when (c (analyzeBeam fmt inp) \<ge> d inp) msg_neutral_axis
      (push_when (a (analyzeBeam fmt inp) > d inp) msg_stress_block
       (push_when (sectionType (analyzeBeam fmt inp) = transition) msg_transition
        (push_when (sectionType (analyzeBeam fmt inp) = compression_controlled)
           msg_compression_controlled
         (push_when (\<not> isNotOverReinforced (analyzeBeam fmt inp))
            (msg_above_maximum fmt (rho (analyzeBeam fmt inp)) (rho_max (analyzeBeam fmt inp)))
          (push_when (\<not> isAdequatelyReinforced (analyzeBeam fmt inp))
             (msg_below_minimum fmt (rho (analyzeBeam fmt inp)) (rho_min (analyzeBeam fmt inp)))
           (push_when (\<not> steelYields (analyzeBeam fmt inp)) msg_steel_not_yield []))))))"
  by (simp only: analyzeBeam_unfold)

section \<open>Arithmetic on finite numbers\<close>

lemma Num_minus [simp]: "Num x - Num y = Num (x - y)"
  by (simp add: minus_number_def)

lemma Math_max_Num [simp]: "Math_max (Num x) (Num y) = Num (max x y)"
  by (auto simp: Math_max_def)

section \<open>The formula functions on finite numbers\<close>

lemma finite_positiveE:
  assumes "finite_positive x"
  obtains r where "x = Num r" and "0 < r"
  using assms by (cases x) auto

text \<open>The stress-block factor of a finite strength is finite and lies in \<open>[0.65, 0.85]\<close>.\<close>

lemma calculateBeta1_Num:
  "\<exists>\<beta>. calculateBeta1 (Num f) = Num \<beta> \<and> 0.65 \<le> \<beta> \<and> \<beta> \<le> 0.85"
proof (cases "f \<le> 4000")
  case True
  then have "calculateBeta1 (Num f) = Num 0.85"
    by (simp add: calculateBeta1_def)
  then show ?thesis by (intro exI [of _ "0.85"]) simp
next
  case False
  then have "calculateBeta1 (Num f) = Num (max (0.85 - 0.05 * ((f - 4000) / 1000)) 0.65)"
    by (simp add: calculateBeta1_def Let_def)
  moreover have "max (0.85 - 0.05 * ((f - 4000) / 1000)) 0.65 \<le> 0.85"
    using False by (simp add: max_def)
  ultimately show ?thesis
    by (intro exI [of _ "max (0.85 - 0.05 * ((f - 4000) / 1000)) 0.65"]) simp
qed

lemma stress_block_Num:
  assumes "0 < f" and "0 < w"
  shows "calculateStressBlockDepth (Num s) (Num y) (Num f) (Num w) = Num (s * y / (0.85 * f * w))"
  using assms by (simp add: calculateStressBlockDepth_def)

lemma neutral_axis_Num:
  assumes "\<beta> \<noteq> 0"
  shows "calculateNeutralAxisDepth (Num x) (Num \<beta>) = Num (x / \<beta>)"
  using assms by (simp add: calculateNeutralAxisDepth_def)

lemma tension_strain_nonpos:
  assumes "cc \<le> 0"
  shows "calculateTensionStrain x (Num cc) e = PosInf"
  using assms by (simp add: calculateTensionStrain_def)

lemma rho_min_Num:
  assumes "0 < f" and "0 < y"
  shows "\<exists>m. calculateRhoMin (Num f) (Num y) = Num m \<and> 0 < m"
  using assms by (simp add: calculateRhoMin_def Let_def less_max_iff_disj)

lemma sqrt_4000: "sqrt 4000 \<le> 66"
  by (rule real_le_lsqrt) simp_all

lemma fixed_digits_examples:
  "fixed_digits 0 3 = ''0.000''"
  "fixed_digits 333 3 = ''0.333''"
  "fixed_digits 7752 3 = ''7.752''"
  "fixed_digits 2064 3 = ''2.064''"
  by (simp_all add: fixed_digits_def numeral_2_eq_2)

section \<open>The warning list as a concatenation\<close>

lemma set_push_when: "set (push_when cond m ws) = (if cond then insert m (set ws) else set ws)"
  by (simp add: push_when_def)

lemma push_when_append: "push_when cond m ws = ws @ (if cond then [m] else [])"
  by (simp add: push_when_def)

lemma mem_set_optional: "x \<in> set (if cond then [m] else []) \<longleftrightarrow> cond \<and> x = m"
  by auto

lemmas msg_defs = msg_steel_not_yield_def msg_below_minimum_def msg_above_maximum_def
  msg_compression_controlled_def msg_transition_def msg_stress_block_def msg_neutral_axis_def

text \<open>
  The seven messages are pairwise different, whatever the formatter prints: the two
  that carry numbers share their first number and differ in the words after it.
\<close>

lemma msg_distinct:
  "msg_steel_not_yield \<noteq> msg_below_minimum fmt x y"
  "msg_steel_not_yield \<noteq> msg_above_maximum fmt x z"
  "msg_steel_not_yield \<noteq> msg_compression_controlled"
  "msg_steel_not_yield \<noteq> msg_transition"
  "msg_steel_not_yield \<noteq> msg_stress_block"
  "msg_steel_not_yield \<noteq> msg_neutral_axis"
  "msg_below_minimum fmt x y \<noteq> msg_above_maximum fmt x z"
  "msg_below_minimum fmt x y \<noteq> msg_compression_controlled"
  "msg_below_minimum fmt x y \<noteq> msg_transition"
  "msg_below_minimum fmt x y \<noteq> msg_stress_block"
  "msg_below_minimum fmt x y \<noteq> msg_neutral_axis"
  "msg_above_maximum fmt x z \<noteq> msg_compression_controlled"
  "msg_above_maximum fmt x z \<noteq> msg_transition"
  "msg_above_maximum fmt x z \<noteq> msg_stress_block"
  "msg_above_maximum fmt x z \<noteq> msg_neutral_axis"
  "msg_compression_controlled \<noteq> msg_transition"
  "msg_compression_controlled \<noteq> msg_stress_block"
  "msg_compression_controlled \<noteq> msg_neutral_axis"
  "msg_transition \<noteq> msg_stress_block"
  "msg_transition \<noteq> msg_neutral_axis"
  "msg_stress_block \<noteq> msg_neutral_axis"
  by (simp_all add: msg_defs)

lemma msg_prefixes:
  "prefix ''Error'' msg_stress_block"
  "prefix ''Error'' msg_neutral_axis"
  "\<not> prefix ''Error'' msg_steel_not_yield"
  "\<not> prefix ''Error'' (msg_below_minimum fmt x y)"
  "\<not> prefix ''Error'' (msg_above_maximum fmt x z)"
  "\<not> prefix ''Error'' msg_compression_controlled"
  "\<not> prefix ''Error'' msg_transition"
  "prefix ''Note:'' msg_transition"
  by (simp_all add: msg_defs)

lemma warnings_concat:
  "warnings (analyzeBeam fmt inp) =
     (if \<not> steelYields (analyzeBeam fmt inp) then [msg_steel_not_yield] else [])
     @ (if \<not> isAdequatelyReinforced (analyzeBeam fmt inp)
        then [msg_below_minimum fmt (rho (analyzeBeam fmt inp)) (rho_min (analyzeBeam fmt inp))]
        else [])
     @ (if \<not> isNotOverReinforced (analyzeBeam fmt inp)
        then [msg_above_maximum fmt (rho (analyzeBeam fmt inp)) (rho_max (analyzeBeam fmt inp))]
        else [])
     @ (if sectionType (analyzeBeam fmt inp) = compression_controlled
        then [msg_compression_controlled] else [])
     @ (if sectionType (analyzeBeam fmt inp) = transition then [msg_transition] else [])
     @ (if a (analyzeBeam fmt inp) > d inp then [msg_stress_block] else [])
     @ (if c (analyzeBeam fmt inp) \<ge> d inp then [msg_neutral_axis] else [])"
  by (simp only: analyzeBeam_warnings push_when_append append_Nil append_assoc)

section \<open>The required-steel solver by cases\<close>

lemma calculateRequiredSteel_cases:
  "calculateRequiredSteel fmt Mu wb de cs ys =
     (if isNaN (required_rho Mu wb de cs ys) \<or> required_rho Mu wb de cs ys < Num 0
      then \<lparr> As_required = Num 0, isValid = False,
             message = ''Section cannot carry the applied moment. Increase section size.'' \<rparr>
      else if required_rho Mu wb de cs ys > calculateRhoMax cs ys (calculateBeta1 cs) EPSILON_CU
      then \<lparr> As_required = required_rho Mu wb de cs ys * wb * de, isValid = False,
             message = ''Required reinforcement ratio (''
               @ fmt (required_rho Mu wb de cs ys * Num 100) 3
               @ ''%) exceeds maximum (''
               @ fmt (calculateRhoMax cs ys (calculateBeta1 cs) EPSILON_CU * Num 100) 3
               @ ''%).'' \<rparr>
      else \<lparr> As_required = required_rho Mu wb de cs ys * wb * de, isValid = True,
             message = ''OK'' \<rparr>)"
  by (simp only: calculateRequiredSteel_def required_rho_def required_radicand_def
      required_R_n_def Let_def)

lemma sqrt_negative: "x < Num 0 \<Longrightarrow> Math_sqrt x = NaN"
  by (cases x) auto

lemma minus_NaN [simp]: "x - NaN = NaN"
  by (cases x) (simp_all add: minus_number_def)

lemma times_NaN [simp]: "x * NaN = NaN"
  by (cases x) simp_all

lemma radicand_negative_iff:
  assumes "0 < f"
  shows "Num 1 - (Num 2 * r) / (Num 0.85 * Num f) < Num 0 \<longleftrightarrow> Num 2 * r > Num 0.85 * Num f"
  using assms by (cases r) (auto simp: minus_number_def inf_of_sign_def field_simps)

section \<open>Properties of the rounding\<close>

subsection \<open>Rounding to the nearest integer\<close>

lemma round_even_of_int [simp]: "round_even (of_int k) = k"
  by (simp add: round_even_def)

lemma round_even_mono:
  assumes "x \<le> y"
  shows "round_even x \<le> round_even y"
proof (cases "\<lfloor>x\<rfloor> = \<lfloor>y\<rfloor>")
  case True
  then show ?thesis
    using assms by (auto simp: round_even_def Let_def)
next
  case False
  then have "\<lfloor>x\<rfloor> + 1 \<le> \<lfloor>y\<rfloor>"
    using assms floor_mono [of x y] by linarith
  moreover have "round_even x \<le> \<lfloor>x\<rfloor> + 1"
    by (simp add: round_even_def Let_def)
  moreover have "\<lfloor>y\<rfloor> \<le> round_even y"
    by (simp add: round_even_def Let_def)
  ultimately show ?thesis by linarith
qed

lemma round_even_minus: "round_even (- x) = - round_even x"
proof (cases "x = of_int \<lfloor>x\<rfloor>")
  case True
  then obtain k where "x = of_int k" by metis
  then show ?thesis
    by (metis of_int_minus round_even_of_int)
next
  case False
  then have fl: "\<lfloor>- x\<rfloor> = - \<lfloor>x\<rfloor> - 1"
    by (simp add: floor_minus ceiling_altdef)
  have "of_int \<lfloor>x\<rfloor> \<le> x"
    by simp
  with False have "0 < x - of_int \<lfloor>x\<rfloor>"
    by linarith
  moreover have "x - of_int \<lfloor>x\<rfloor> < 1"
    by linarith
  ultimately show ?thesis
    unfolding round_even_def Let_def fl by (auto simp: algebra_simps)
qed

lemma powi_powr: "(2::real) powi k = 2 powr (of_int k)"
  by (simp add: powr_real_of_int')

lemma powi_mono2: "i \<le> j \<Longrightarrow> (2::real) powi i \<le> 2 powi j"
  by (simp add: powi_powr)

lemma powi_pos2 [simp]: "0 < (2::real) powi i"
  by (simp add: powi_powr)

lemma powi_diff2: "(2::real) powi i / 2 powi j = 2 powi (i - j)"
  by (simp add: power_int_diff)

lemma powi_add2: "(2::real) powi (i + j) = 2 powi i * 2 powi j"
  by (simp add: power_int_add)

lemma powi_53: "of_int (2 ^ 53) * (2::real) powi (e - 52) = 2 powi (e + 1)"
proof -
  have eq: "53 + (e - 52) = e + 1"
    by arith
  have "(2::real) powi (53 + (e - 52)) = 2 powi 53 * 2 powi (e - 52)"
    by (rule powi_add2)
  then show ?thesis
    unfolding eq by simp
qed

lemma powi_52: "of_int (2 ^ 52) * (2::real) powi (e - 52) = 2 powi e"
proof -
  have eq: "52 + (e - 52) = e"
    by arith
  have "(2::real) powi (52 + (e - 52)) = 2 powi 52 * 2 powi (e - 52)"
    by (rule powi_add2)
  then show ?thesis
    unfolding eq by simp
qed

subsection \<open>Binades\<close>

lemma binade_minus [simp]: "binade (- x) = binade x"
  by (simp add: binade_def)

lemma ulp_minus [simp]: "ulp (- x) = ulp x"
  by (simp add: ulp_def)

lemma ulp_pos [simp]: "0 < ulp x"
  by (simp add: ulp_def)

lemma ulp_nonneg [simp]: "0 \<le> ulp x"
  using ulp_pos [of x] by (rule less_imp_le)

lemma binade_ge: "- 1022 \<le> binade x"
  by (simp add: binade_def)

lemma binade_upper:
  assumes "x \<noteq> 0"
  shows "\<bar>x\<bar> < 2 powi (binade x + 1)"
proof -
  have "log 2 \<bar>x\<bar> < of_int (\<lfloor>log 2 \<bar>x\<bar>\<rfloor> + 1)"
    by linarith
  also have "\<dots> \<le> of_int (binade x + 1)"
    unfolding binade_def by simp
  finally have "log 2 \<bar>x\<bar> < of_int (binade x + 1)" .
  then have "\<bar>x\<bar> < 2 powr of_int (binade x + 1)"
    using assms by (simp add: log_less_iff)
  then show ?thesis
    by (simp only: powi_powr)
qed

lemma binade_lower:
  assumes "2 powi k \<le> \<bar>x\<bar>" and "k = - 1022"
  shows "2 powi (binade x) \<le> \<bar>x\<bar>"
proof -
  have pos: "0 < \<bar>x\<bar>"
    using assms(1) powi_pos2 [of k] by linarith
  have "2 powr of_int k \<le> \<bar>x\<bar>"
    using assms(1) by (simp only: powi_powr)
  then have "of_int k \<le> log 2 \<bar>x\<bar>"
    using pos by (simp add: le_log_iff)
  then have "k \<le> \<lfloor>log 2 \<bar>x\<bar>\<rfloor>"
    by (simp add: le_floor_iff)
  then have "binade x = \<lfloor>log 2 \<bar>x\<bar>\<rfloor>"
    using assms(2) by (simp add: binade_def)
  then have "of_int (binade x) \<le> log 2 \<bar>x\<bar>"
    by simp
  then have "2 powr of_int (binade x) \<le> \<bar>x\<bar>"
    using pos by (simp add: le_log_iff)
  then show ?thesis
    by (simp only: powi_powr)
qed

lemma binade_lower':
  assumes "- 1022 < binade x" and "x \<noteq> 0"
  shows "2 powi (binade x) \<le> \<bar>x\<bar>"
proof -
  have "binade x = \<lfloor>log 2 \<bar>x\<bar>\<rfloor>"
    using assms(1) by (simp add: binade_def max_def split: if_splits)
  then have "of_int (binade x) \<le> log 2 \<bar>x\<bar>"
    by simp
  then have "2 powr of_int (binade x) \<le> \<bar>x\<bar>"
    using assms(2) by (simp add: le_log_iff)
  then show ?thesis
    by (simp only: powi_powr)
qed

lemma binade_mono:
  assumes "0 < x" and "x \<le> y"
  shows "binade x \<le> binade y"
proof -
  have "log 2 \<bar>x\<bar> \<le> log 2 \<bar>y\<bar>"
    using assms by simp
  then have "\<lfloor>log 2 \<bar>x\<bar>\<rfloor> \<le> \<lfloor>log 2 \<bar>y\<bar>\<rfloor>"
    by (rule floor_mono)
  then show ?thesis
    by (simp add: binade_def)
qed

subsection \<open>The rounded value of a real number\<close>

lemma to_float64_nearest:
  "to_float64 x =
     (if x = 0 then Num 0
      else if 2 powi 1024 \<le> \<bar>nearest x\<bar> then (if 0 < x then PosInf else NegInf)
      else Num (nearest x))"
  by (simp add: to_float64_def nearest_def Let_def)

lemma nearest_minus [simp]: "nearest (- x) = - nearest x"
  by (simp add: nearest_def round_even_minus)

lemma nearest_nonneg:
  assumes "0 \<le> x"
  shows "0 \<le> nearest x"
proof -
  have "0 \<le> x / ulp x"
    using assms ulp_pos [of x] by (intro divide_nonneg_pos)
  then have "round_even 0 \<le> round_even (x / ulp x)"
    by (rule round_even_mono)
  then have "0 \<le> round_even (x / ulp x)"
    using round_even_of_int [of 0] by simp
  then have "(0::real) \<le> of_int (round_even (x / ulp x))"
    by simp
  then show ?thesis
    unfolding nearest_def by (intro mult_nonneg_nonneg) simp_all
qed

lemma nearest_upper:
  assumes "0 < x"
  shows "nearest x \<le> 2 powi (binade x + 1)"
proof -
  have "x < 2 powi (binade x + 1)"
    using binade_upper [of x] assms by simp
  then have "x / ulp x \<le> 2 powi (binade x + 1) / ulp x"
    using ulp_pos [of x] by (intro divide_right_mono) simp_all
  also have "\<dots> = 2 powi 53"
    by (simp add: ulp_def powi_diff2)
  also have "\<dots> = of_int (2 ^ 53)"
    by simp
  finally have "round_even (x / ulp x) \<le> round_even (of_int (2 ^ 53))"
    by (rule round_even_mono)
  then have "round_even (x / ulp x) \<le> 2 ^ 53"
    by (simp only: round_even_of_int)
  then have "(of_int (round_even (x / ulp x)) :: real) \<le> of_int (2 ^ 53)"
    by (simp only: of_int_le_iff)
  then have "nearest x \<le> of_int (2 ^ 53) * ulp x"
    unfolding nearest_def by (simp add: mult_right_mono)
  also have "\<dots> = 2 powi (binade x + 1)"
    unfolding ulp_def by (rule powi_53)
  finally show ?thesis .
qed

lemma nearest_lower:
  assumes "0 < x" and "2 powi (binade x) \<le> x"
  shows "2 powi (binade x) \<le> nearest x"
proof -
  have "2 powi (binade x) / ulp x \<le> x / ulp x"
    using assms(2) ulp_pos [of x] by (intro divide_right_mono) simp_all
  moreover have "2 powi (binade x) / ulp x = of_int (2 ^ 52)"
    by (simp add: ulp_def powi_diff2)
  ultimately have "round_even (of_int (2 ^ 52)) \<le> round_even (x / ulp x)"
    using round_even_mono by metis
  then have "2 ^ 52 \<le> round_even (x / ulp x)"
    by (simp only: round_even_of_int)
  then have "(of_int (2 ^ 52) :: real) \<le> of_int (round_even (x / ulp x))"
    by (simp only: of_int_le_iff)
  then have "of_int (2 ^ 52) * ulp x \<le> nearest x"
    unfolding nearest_def by (simp add: mult_right_mono)
  moreover have "of_int (2 ^ 52) * ulp x = 2 powi (binade x)"
    unfolding ulp_def by (rule powi_52)
  ultimately show ?thesis by simp
qed

lemma nearest_mono_pos:
  assumes "0 < x" and "x \<le> y"
  shows "nearest x \<le> nearest y"
proof (cases "binade x = binade y")
  case True
  then have u: "ulp x = ulp y"
    by (simp add: ulp_def)
  have "x / ulp y \<le> y / ulp y"
    using assms(2) ulp_pos [of y] by (intro divide_right_mono) simp_all
  then have "round_even (x / ulp y) \<le> round_even (y / ulp y)"
    by (rule round_even_mono)
  then have "(of_int (round_even (x / ulp y)) :: real) \<le> of_int (round_even (y / ulp y))"
    by (simp only: of_int_le_iff)
  then show ?thesis
    unfolding nearest_def u by (simp add: mult_right_mono)
next
  case False
  then have lt: "binade x < binade y"
    using binade_mono [OF assms] by simp
  then have "- 1022 < binade y"
    using binade_ge [of x] by linarith
  then have "2 powi (binade y) \<le> y"
    using binade_lower' [of y] assms by simp
  then have "2 powi (binade y) \<le> nearest y"
    using nearest_lower [of y] assms by simp
  moreover have "nearest x \<le> 2 powi (binade x + 1)"
    using nearest_upper [OF assms(1)] .
  moreover have "(2::real) powi (binade x + 1) \<le> 2 powi (binade y)"
    using lt by (intro powi_mono2) simp
  ultimately show ?thesis by linarith
qed

lemma nearest_mono:
  assumes "x \<le> y"
  shows "nearest x \<le> nearest y"
proof -
  consider "0 < x" | "y < 0" | "x \<le> 0" "0 \<le> y"
    using assms by linarith
  then show ?thesis
  proof cases
    case 1
    then show ?thesis using assms by (rule nearest_mono_pos)
  next
    case 2
    then have "nearest (- y) \<le> nearest (- x)"
      using assms by (intro nearest_mono_pos) simp_all
    then show ?thesis by simp
  next
    case 3
    have "0 \<le> nearest y" "0 \<le> nearest (- x)"
      using 3 by (simp_all add: nearest_nonneg del: nearest_minus)
    then show ?thesis by simp
  qed
qed

subsection \<open>Rounding is monotone\<close>

lemma nearest_zero [simp]: "nearest 0 = 0"
  using round_even_of_int [of 0] by (simp add: nearest_def)

lemma nearest_nonpos:
  assumes "x \<le> 0"
  shows "nearest x \<le> 0"
  using nearest_nonneg [of "- x"] assms by simp

lemma to_float64_cases:
  "to_float64 x =
     (if 2 powi 1024 \<le> \<bar>nearest x\<bar> then (if 0 < x then PosInf else NegInf)
      else Num (nearest x))"
proof (cases "x = 0")
  case True
  have "\<not> (2::real) powi 1024 \<le> 0"
    using powi_pos2 [of 1024] by linarith
  then show ?thesis
    unfolding to_float64_nearest using True by (simp del: power_int_numeral)
next
  case False
  then show ?thesis
    by (simp only: to_float64_nearest if_False)
qed

lemma to_float64_mono:
  assumes "x \<le> y"
  shows "to_float64 x \<le> to_float64 y"
proof -
  define B :: real where "B = 2 powi 1024"
  have B: "0 < B"
    by (simp add: B_def)
  have le: "nearest x \<le> nearest y"
    using assms by (rule nearest_mono)
  have sx: "0 < x \<Longrightarrow> 0 \<le> nearest x" and sy: "y \<le> 0 \<Longrightarrow> nearest y \<le> 0"
    by (simp_all add: nearest_nonneg nearest_nonpos)
  show ?thesis
    unfolding to_float64_cases B_def [symmetric]
    using le sx sy B assms by (auto split: if_splits)
qed

lemma to_float64_zero [simp]: "to_float64 0 = Num 0"
  by (simp add: to_float64_def)

lemma to_float64_not_NaN [simp]: "\<not> isNaN (to_float64 x)"
  by (simp add: to_float64_cases)

lemma rnd_mono:
  assumes "x \<le> y"
  shows "rnd x \<le> rnd y"
proof (cases x; cases y)
  fix r s
  assume "x = Num r" "y = Num s"
  then show ?thesis
    using assms to_float64_mono [of r s] by simp
next
  fix r
  assume "x = NegInf" "y = Num r"
  then show ?thesis
    using to_float64_not_NaN [of r] by (cases "to_float64 r") simp_all
next
  fix r
  assume "x = Num r" "y = PosInf"
  then show ?thesis
    using to_float64_not_NaN [of r] by (cases "to_float64 r") simp_all
qed (use assms in simp_all)

lemma rnd_nonneg:
  assumes "Num 0 \<le> x"
  shows "Num 0 \<le> rnd x"
  using rnd_mono [OF assms] by simp

subsection \<open>Arithmetic preserves the order\<close>


lemma divide_nonneg_number:
  assumes "Num 0 \<le> x" and "0 < k"
  shows "Num 0 \<le> x / Num k"
  using assms by (cases x) (simp_all add: inf_of_sign_def)


lemma times_nonneg_number:
  assumes "Num 0 \<le> x" and "0 < k"
  shows "Num 0 \<le> Num k * x"
  using assms by (cases x) (simp_all add: inf_of_sign_def)

lemma minus_antimono_number:
  assumes "x \<le> y"
  shows "Num k - y \<le> Num k - x"
  using assms by (cases x; cases y) (simp_all add: minus_number_def)


subsection \<open>Evaluating a rounding\<close>

lemma binade_eqI:
  assumes "2 powi e \<le> \<bar>x\<bar>" and "\<bar>x\<bar> < 2 powi (e + 1)" and "- 1022 \<le> e"
  shows "binade x = e"
proof -
  have "(0::real) < 2 powi e" by simp
  then have pos: "0 < \<bar>x\<bar>" using assms(1) by linarith
  have "2 powr (of_int e) \<le> \<bar>x\<bar>"
    using assms(1) by (simp only: powi_powr)
  moreover have "\<bar>x\<bar> < 2 powr (of_int e + 1)"
    using assms(2) powi_powr [of "e + 1"] by simp
  ultimately have "\<lfloor>log 2 \<bar>x\<bar>\<rfloor> = e"
    using pos by (simp add: floor_log_eq_powr_iff)
  then show ?thesis using assms(3) by (simp add: binade_def)
qed

lemma binade_subnormal:
  assumes "x \<noteq> 0" and "\<bar>x\<bar> < 2 powi k" and "k = - 1022"
  shows "binade x = - 1022"
proof -
  have pos: "0 < \<bar>x\<bar>" using assms(1) by simp
  have "\<bar>x\<bar> < 2 powr (of_int k)"
    using assms(2) by (simp only: powi_powr)
  then have "log 2 \<bar>x\<bar> < of_int k"
    using pos by (simp add: log_less_iff)
  then have "\<lfloor>log 2 \<bar>x\<bar>\<rfloor> \<le> k"
    by linarith
  then show ?thesis using assms(3) by (simp add: binade_def)
qed

lemma to_float64_normal:
  assumes "2 powi e \<le> \<bar>x\<bar>" and "\<bar>x\<bar> < 2 powi (e + 1)" and "- 1022 \<le> e"
    and "of_int (round_even (x / 2 powi (e - 52))) * 2 powi (e - 52) = m"
    and "\<bar>m\<bar> < 2 powi 1024"
  shows "to_float64 x = Num m"
proof -
  have "(0::real) < 2 powi e" by simp
  then have "0 < \<bar>x\<bar>" using assms(1) by linarith
  then have "x \<noteq> 0" by auto
  moreover have "ulp x = 2 powi (e - 52)"
    by (simp only: ulp_def binade_eqI [OF assms(1-3)])
  ultimately show ?thesis
    using assms(4,5) by (simp add: to_float64_def nearest_def Let_def)
qed

lemma to_float64_subnormal:
  assumes "x \<noteq> 0" and "\<bar>x\<bar> < 2 powi (- 1022)"
    and "of_int (round_even (x / 2 powi (- 1074))) * 2 powi (- 1074) = m"
    and "\<bar>m\<bar> < 2 powi 1024"
  shows "to_float64 x = Num m"
proof -
  have "binade x = - 1022"
    using assms(1,2) by (rule binade_subnormal) simp
  then have u: "ulp x = 2 powi (- 1074)"
    by (simp add: ulp_def)
  show ?thesis
    unfolding to_float64_def nearest_def Let_def u using assms(1,3,4) by simp
qed

lemma rnd_times: "to_float64 (x * y) = r \<Longrightarrow> rnd (Num x * Num y) = r"
  by simp

lemma rnd_divide: "to_float64 (x / y) = r \<Longrightarrow> y \<noteq> 0 \<Longrightarrow> rnd (Num x / Num y) = r"
  by simp

lemma rnd_minus: "to_float64 (x - y) = r \<Longrightarrow> rnd (Num x - Num y) = r"
  by simp

lemma lit_085: "lit 0.85 = Num (7656119366529843 / 2 ^ 53)"
  unfolding lit_def by (rule to_float64_normal [where e = "- 1"]) (simp_all add: round_even_def Let_def)

lemma lit_005: "lit 0.05 = Num (3602879701896397 / 2 ^ 56)"
  unfolding lit_def by (rule to_float64_normal [where e = "- 5"]) (simp_all add: round_even_def Let_def)

lemma lit_065: "lit 0.65 = Num (5854679515581645 / 2 ^ 53)"
  unfolding lit_def by (rule to_float64_normal [where e = "- 1"]) (simp_all add: round_even_def Let_def)

lemma lit_080: "lit 0.80 = Num (3602879701896397 / 2 ^ 52)"
  unfolding lit_def by (rule to_float64_normal [where e = "- 1"]) (simp_all add: round_even_def Let_def)


lemma rnd_085: "rnd (Num (7656119366529843 / 2 ^ 53)) = Num (7656119366529843 / 2 ^ 53)"
  unfolding rnd.simps by (rule to_float64_normal [where e = "- 1"]) (simp_all add: round_even_def Let_def)

subsection \<open>The stress-block factor in double precision\<close>

lemma Math_max_bounds:
  assumes "x \<le> u" and "l \<le> u"
  shows "l \<le> Math_max x l \<and> Math_max x l \<le> u"
  using assms by (cases x; cases l; cases u) (simp_all add: Math_max_def)

lemma calculateBeta1_f64_bounds:
  "lit 0.65 \<le> calculateBeta1_f64 (Num f) \<and> calculateBeta1_f64 (Num f) \<le> lit 0.85"
proof (cases "f \<le> 4000")
  case True
  then have "calculateBeta1_f64 (Num f) = lit 0.85"
    by (simp add: calculateBeta1_f64_def)
  then show ?thesis
    unfolding lit_065 lit_085 by simp
next
  case False
  define t where "t = rnd (lit 0.05 * rnd (rnd (Num f - Num 4000) / Num 1000))"
  have "Num 0 \<le> Num f - Num 4000"
    using False by simp
  then have "Num 0 \<le> rnd (Num f - Num 4000)"
    by (rule rnd_nonneg)
  then have "Num 0 \<le> rnd (Num f - Num 4000) / Num 1000"
    by (rule divide_nonneg_number) simp
  then have "Num 0 \<le> rnd (rnd (Num f - Num 4000) / Num 1000)"
    by (rule rnd_nonneg)
  then have "Num 0 \<le> lit 0.05 * rnd (rnd (Num f - Num 4000) / Num 1000)"
    unfolding lit_005 by (rule times_nonneg_number) simp
  then have "Num 0 \<le> t"
    unfolding t_def by (rule rnd_nonneg)
  then have "lit 0.85 - t \<le> lit 0.85 - Num 0"
    unfolding lit_085 by (rule minus_antimono_number)
  then have "rnd (lit 0.85 - t) \<le> rnd (lit 0.85 - Num 0)"
    by (rule rnd_mono)
  moreover have "rnd (lit 0.85 - Num 0) = lit 0.85"
    unfolding lit_085 using rnd_085 by simp
  ultimately have "rnd (lit 0.85 - t) \<le> lit 0.85"
    by simp
  moreover have "lit 0.65 \<le> lit 0.85"
    unfolding lit_065 lit_085 by simp
  ultimately have "lit 0.65 \<le> Math_max (rnd (lit 0.85 - t)) (lit 0.65)
      \<and> Math_max (rnd (lit 0.85 - t)) (lit 0.65) \<le> lit 0.85"
    by (rule Math_max_bounds)
  moreover have "calculateBeta1_f64 (Num f) = Math_max (rnd (lit 0.85 - t)) (lit 0.65)"
    using False by (simp add: calculateBeta1_f64_def Let_def t_def)
  ultimately show ?thesis
    by simp
qed

lemma calculateBeta1_f64_positive:
  obtains \<beta> where "calculateBeta1_f64 (Num f) = Num \<beta>" and "0 < \<beta>"
proof -
  have "lit 0.65 \<le> calculateBeta1_f64 (Num f)" "calculateBeta1_f64 (Num f) \<le> lit 0.85"
    using calculateBeta1_f64_bounds [of f] by simp_all
  then obtain \<beta> where "calculateBeta1_f64 (Num f) = Num \<beta>" "0 < \<beta>"
    unfolding lit_065 lit_085 by (cases "calculateBeta1_f64 (Num f)") auto
  then show ?thesis
    by (rule that)
qed

subsection \<open>Depths and strain in double precision\<close>

lemma zero_divide_number: "Num 0 < x \<Longrightarrow> Num 0 / x = Num 0"
  by (cases x) simp_all





text \<open>The products of the default section: \<open>0.85 \<times> 4000 \<times> 12\<close> and \<open>12 \<times> 21.5\<close>.\<close>

lemma default_products:
  "rnd (rnd (lit 0.85 * Num 4000) * Num 12) = Num 40800"
  "rnd (Num 12 * Num 21.5) = Num 258"
proof -
  have k1: "rnd (Num (7656119366529843 / 2 ^ 53) * Num 4000) = Num 3400"
    by (rule rnd_times, rule to_float64_normal [where e = "11"]) (simp_all add: round_even_def Let_def)
  have k2: "rnd (Num 3400 * Num 12) = Num 40800"
    by (rule rnd_times, rule to_float64_normal [where e = "15"]) (simp_all add: round_even_def Let_def)
  show "rnd (rnd (lit 0.85 * Num 4000) * Num 12) = Num 40800"
    by (simp only: lit_085 k1 k2)
  show "rnd (Num 12 * Num 21.5) = Num 258"
    by (rule rnd_times, rule to_float64_normal [where e = "8"]) (simp_all add: round_even_def Let_def)
qed

section \<open>Closed-form equations of the result\<close>

text \<open>
  C1. For every input, the mechanics fields of the record returned by \<open>analyzeBeam\<close>
  satisfy the closed-form equations: \<open>a = (As \<times> fy) / (0.85 \<times> fc \<times> b)\<close>,
  \<open>c = a / beta1\<close>, \<open>Mn = As \<times> fy \<times> (d - a/2)\<close>, \<open>phiMn = phi \<times> Mn\<close>,
  \<open>Mn_kip_ft = Mn / 12000\<close> and \<open>phiMn_kip_ft = phiMn / 12000\<close>.
\<close>

theorem analyzeBeam_closed_form:
  "a (analyzeBeam fmt inp) = (As inp * fy inp) / (Num 0.85 * fc inp * b inp)
   \<and> c (analyzeBeam fmt inp) = a (analyzeBeam fmt inp) / beta1 (analyzeBeam fmt inp)
   \<and> Mn (analyzeBeam fmt inp) = As inp * fy inp * (d inp - a (analyzeBeam fmt inp) / Num 2)
   \<and> phiMn (analyzeBeam fmt inp) = phi (analyzeBeam fmt inp) * Mn (analyzeBeam fmt inp)
   \<and> Mn_kip_ft (analyzeBeam fmt inp) = Mn (analyzeBeam fmt inp) / Num 12000
   \<and> phiMn_kip_ft (analyzeBeam fmt inp) = phiMn (analyzeBeam fmt inp) / Num 12000"
proof -
  have kip: "convertToKipFt x = x / Num 12000" for x
    by (simp add: convertToKipFt_def)
  show ?thesis
    by (simp only: analyzeBeam_a analyzeBeam_c analyzeBeam_Mn analyzeBeam_phiMn
        analyzeBeam_Mn_kip_ft analyzeBeam_phiMn_kip_ft kip calculateStressBlockDepth_def
        calculateNeutralAxisDepth_def calculateMn_def simp_thms)
qed

section \<open>The stress-block factor\<close>

text \<open>
  C2, as stated: \<open>calculateBeta1(5000) = 0.80\<close>. In double precision the subtraction
  \<open>0.85 - 0.05\<close> is rounded to \<open>0.7999999999999999\<close>, the double next below the one
  that the literal \<open>0.80\<close> denotes.
\<close>

theorem calculateBeta1_f64_counterexample:
  "calculateBeta1_f64 (Num 5000) = Num (7205759403792793 / 2 ^ 53)
   \<and> lit 0.80 = Num (7205759403792794 / 2 ^ 53)
   \<and> calculateBeta1_f64 (Num 5000) \<noteq> lit 0.80"
proof -
  have s0: "(Num 5000 \<le> Num 4000) = False"
    by simp
  have s1: "rnd (Num 5000 - Num 4000) = Num 1000"
    by (rule rnd_minus, rule to_float64_normal [where e = "9"]) (simp_all add: round_even_def Let_def)
  have s2: "rnd (Num 1000 / Num 1000) = Num 1"
    by (rule rnd_divide, rule to_float64_normal [where e = "0"]) (simp_all add: round_even_def Let_def)
  have s3: "rnd (Num (3602879701896397 / 2 ^ 56) * Num 1) = Num (3602879701896397 / 2 ^ 56)"
    by (rule rnd_times, rule to_float64_normal [where e = "- 5"]) (simp_all add: round_even_def Let_def)
  have s4: "rnd (Num (7656119366529843 / 2 ^ 53) - Num (3602879701896397 / 2 ^ 56)) = Num (7205759403792793 / 2 ^ 53)"
    by (rule rnd_minus, rule to_float64_normal [where e = "- 1"]) (simp_all add: round_even_def Let_def)
  have s5: "Math_max (Num (7205759403792793 / 2 ^ 53)) (Num (5854679515581645 / 2 ^ 53))
      = Num (7205759403792793 / 2 ^ 53)"
    by simp
  have v: "calculateBeta1_f64 (Num 5000) = Num (7205759403792793 / 2 ^ 53)"
    unfolding calculateBeta1_f64_def Let_def
    by (simp only: s0 if_False lit_085 lit_005 lit_065 s1 s2 s3 s4 s5)
  have l: "lit 0.80 = Num (7205759403792794 / 2 ^ 53)"
    unfolding lit_080 by simp
  show ?thesis
    unfolding v l by simp
qed

text \<open>
  C2, amended. For every \<open>fc\<close>, \<open>calculateBeta1\<close> gives \<open>0.85\<close> when \<open>fc \<le> 4000\<close> and
  otherwise \<open>Math.max(0.85 - 0.05 \<times> ((fc - 4000) / 1000), 0.65)\<close> with every operation
  rounded to the nearest double, in the order of the code. For a finite \<open>fc\<close> the result
  lies between \<open>0.65\<close> and \<open>0.85\<close>. In particular \<open>calculateBeta1(10000) = 0.65\<close>, where
  the floor is engaged, and \<open>calculateBeta1(5000) = 0.7999999999999999\<close>, which is
  \<open>2\<^sup>-\<^sup>5\<^sup>3\<close> below the double \<open>0.80\<close>.
\<close>

theorem calculateBeta1_f64_cases:
  "calculateBeta1_f64 x =
     (if x \<le> Num 4000 then lit 0.85
      else Math_max (rnd (lit 0.85 - rnd (lit 0.05 * rnd (rnd (x - Num 4000) / Num 1000))))
             (lit 0.65))
   \<and> lit 0.65 \<le> calculateBeta1_f64 (Num f)
   \<and> calculateBeta1_f64 (Num f) \<le> lit 0.85
   \<and> calculateBeta1_f64 (Num 10000) = lit 0.65
   \<and> calculateBeta1_f64 (Num 5000) = Num (7205759403792793 / 2 ^ 53)
   \<and> lit 0.80 = Num (7205759403792793 / 2 ^ 53 + 1 / 2 ^ 53)"
proof (intro conjI)
  show "calculateBeta1_f64 x =
     (if x \<le> Num 4000 then lit 0.85
      else Math_max (rnd (lit 0.85 - rnd (lit 0.05 * rnd (rnd (x - Num 4000) / Num 1000))))
             (lit 0.65))"
    by (simp add: calculateBeta1_f64_def Let_def)
  show "lit 0.65 \<le> calculateBeta1_f64 (Num f)" "calculateBeta1_f64 (Num f) \<le> lit 0.85"
    using calculateBeta1_f64_bounds [of f] by simp_all
  show "calculateBeta1_f64 (Num 10000) = lit 0.65"
  proof -
    have s0: "(Num 10000 \<le> Num 4000) = False"
      by simp
    have s1: "rnd (Num 10000 - Num 4000) = Num 6000"
      by (rule rnd_minus, rule to_float64_normal [where e = "12"]) (simp_all add: round_even_def Let_def)
    have s2: "rnd (Num 6000 / Num 1000) = Num 6"
      by (rule rnd_divide, rule to_float64_normal [where e = "2"]) (simp_all add: round_even_def Let_def)
    have s3: "rnd (Num (3602879701896397 / 2 ^ 56) * Num 6) = Num (1351079888211149 / 2 ^ 52)"
      by (rule rnd_times, rule to_float64_normal [where e = "- 2"]) (simp_all add: round_even_def Let_def)
    have s4: "rnd (Num (7656119366529843 / 2 ^ 53) - Num (1351079888211149 / 2 ^ 52)) = Num (4953959590107545 / 2 ^ 53)"
      by (rule rnd_minus, rule to_float64_normal [where e = "- 1"]) (simp_all add: round_even_def Let_def)
    have s5: "Math_max (Num (4953959590107545 / 2 ^ 53)) (Num (5854679515581645 / 2 ^ 53))
        = Num (5854679515581645 / 2 ^ 53)"
      by simp
    show ?thesis
      unfolding calculateBeta1_f64_def Let_def
      by (simp only: s0 if_False lit_085 lit_005 lit_065 s1 s2 s3 s4 s5)
  qed
  show "calculateBeta1_f64 (Num 5000) = Num (7205759403792793 / 2 ^ 53)"
  proof -
    have s0: "(Num 5000 \<le> Num 4000) = False"
      by simp
    have s1: "rnd (Num 5000 - Num 4000) = Num 1000"
      by (rule rnd_minus, rule to_float64_normal [where e = "9"]) (simp_all add: round_even_def Let_def)
    have s2: "rnd (Num 1000 / Num 1000) = Num 1"
      by (rule rnd_divide, rule to_float64_normal [where e = "0"]) (simp_all add: round_even_def Let_def)
    have s3: "rnd (Num (3602879701896397 / 2 ^ 56) * Num 1) = Num (3602879701896397 / 2 ^ 56)"
      by (rule rnd_times, rule to_float64_normal [where e = "- 5"]) (simp_all add: round_even_def Let_def)
    have s4: "rnd (Num (7656119366529843 / 2 ^ 53) - Num (3602879701896397 / 2 ^ 56)) = Num (7205759403792793 / 2 ^ 53)"
      by (rule rnd_minus, rule to_float64_normal [where e = "- 1"]) (simp_all add: round_even_def Let_def)
    have s5: "Math_max (Num (7205759403792793 / 2 ^ 53)) (Num (5854679515581645 / 2 ^ 53))
        = Num (7205759403792793 / 2 ^ 53)"
      by simp
    show ?thesis
      unfolding calculateBeta1_f64_def Let_def
      by (simp only: s0 if_False lit_085 lit_005 lit_065 s1 s2 s3 s4 s5)
  qed
  show "lit 0.80 = Num (7205759403792793 / 2 ^ 53 + 1 / 2 ^ 53)"
    unfolding lit_080 by simp
qed

section \<open>Strength-reduction factor and section classification\<close>

text \<open>
  C3, as stated: for every pair \<open>(epsilon_t, epsilon_y)\<close>, \<open>epsilon_t \<ge> 0.005\<close> gives
  tension-controlled and \<open>phi = 0.90\<close>; \<open>epsilon_t \<le> epsilon_y\<close> gives
  compression-controlled and \<open>phi = 0.65\<close>; otherwise the section is in transition and
  \<open>phi\<close> is the interpolation. The second clause fails where both tests hold: at
  \<open>epsilon_t = 0.006\<close>, \<open>epsilon_y = 0.01\<close> the strain does not exceed the yield
  strain, and both functions answer for the tension-controlled case, which they test first.
\<close>

theorem phi_class_overlap_counterexample:
  "Num 0.006 \<le> Num 0.01
   \<and> classifySection (Num 0.006) (Num 0.01) = tension_controlled
   \<and> classifySection (Num 0.006) (Num 0.01) \<noteq> compression_controlled
   \<and> calculatePhi (Num 0.006) (Num 0.01) = Num 0.90
   \<and> calculatePhi (Num 0.006) (Num 0.01) \<noteq> Num 0.65"
  by (simp add: classifySection_def calculatePhi_def)

text \<open>
  C3, amended: \<open>calculatePhi\<close> and \<open>classifySection\<close> take the same branch on every
  pair. \<open>epsilon_t \<ge> 0.005\<close> gives tension-controlled and \<open>phi = 0.90\<close>; when that
  test fails and \<open>epsilon_t \<le> epsilon_y\<close>, compression-controlled and \<open>phi = 0.65\<close>;
  when both tests fail (also for NaN), transition and
  \<open>phi = 0.65 + 0.25 \<times> (epsilon_t - epsilon_y) / (0.005 - epsilon_y)\<close>.
\<close>

theorem phi_class_agree:
  "(et \<ge> Num 0.005 \<longrightarrow>
      classifySection et ey = tension_controlled \<and> calculatePhi et ey = Num 0.90)
   \<and> (\<not> et \<ge> Num 0.005 \<and> et \<le> ey \<longrightarrow>
      classifySection et ey = compression_controlled \<and> calculatePhi et ey = Num 0.65)
   \<and> (\<not> et \<ge> Num 0.005 \<and> \<not> et \<le> ey \<longrightarrow>
      classifySection et ey = transition
      \<and> calculatePhi et ey = Num 0.65 + Num 0.25 * (et - ey) / (Num 0.005 - ey))"
  by (simp add: classifySection_def calculatePhi_def)

theorem phi_class_agree_witness:
  "Num 0.009 \<ge> Num 0.005
   \<and> classifySection (Num 0.009) (Num 0.002) = tension_controlled
   \<and> calculatePhi (Num 0.009) (Num 0.002) = Num 0.90
   \<and> \<not> Num 0.001 \<ge> Num 0.005 \<and> Num 0.001 \<le> Num 0.002
   \<and> classifySection (Num 0.001) (Num 0.002) = compression_controlled
   \<and> calculatePhi (Num 0.001) (Num 0.002) = Num 0.65
   \<and> \<not> Num 0.003 \<ge> Num 0.005 \<and> \<not> Num 0.003 \<le> Num 0.002
   \<and> classifySection (Num 0.003) (Num 0.002) = transition
   \<and> calculatePhi (Num 0.003) (Num 0.002) = Num (11 / 15)"
  using phi_class_agree [of "Num 0.009" "Num 0.002"]
    phi_class_agree [of "Num 0.001" "Num 0.002"]
    phi_class_agree [of "Num 0.003" "Num 0.002"]
  by simp

section \<open>Continuity of the strength-reduction factor\<close>

lemma interp_eval:
  assumes "0.005 - ey \<noteq> 0"
  shows "Num 0.65 + Num 0.25 * (Num x - Num ey) / (Num 0.005 - Num ey)
           = Num (0.65 + 0.25 * (x - ey) / (0.005 - ey))"
  using assms
  by (simp only: Num_minus times_number.simps divide_number.simps plus_number.simps if_False)

lemma calculatePhi_Num:
  assumes "ey < 0.005"
  shows "calculatePhi (Num et) (Num ey) =
     Num (if 0.005 \<le> et then 0.90 else if et \<le> ey then 0.65
          else 0.65 + 0.25 * (et - ey) / (0.005 - ey))"
proof -
  have ne: "0.005 - ey \<noteq> 0" using assms by simp
  show ?thesis
    by (cases "0.005 \<le> et"; cases "et \<le> ey";
        simp only: calculatePhi_def interp_eval [OF ne] less_eq_number.simps if_True if_False)
qed

text \<open>Below \<open>epsilon_y < 0.005\<close> the factor is the interpolation line clamped to \<open>[0.65, 0.90]\<close>.\<close>

lemma phi_clamp:
  assumes "ey < 0.005"
  shows "the_real (calculatePhi (Num et) (Num ey))
           = max 0.65 (min 0.90 (0.65 + 0.25 * (et - ey) / (0.005 - ey)))"
proof -
  define r where "r = (et - ey) / (0.005 - ey)"
  have k: "0 < 0.005 - ey" using assms by simp
  have hi: "1 \<le> r" if "0.005 \<le> et"
    using that k unfolding r_def by (simp only: pos_le_divide_eq) simp
  have lo: "r \<le> 0" if "et \<le> ey"
    using that k unfolding r_def by (simp only: divide_le_0_iff) simp
  have mid: "0 < r \<and> r < 1" if "ey < et" "et < 0.005"
    using that k unfolding r_def by (simp only: pos_divide_less_eq zero_less_divide_iff) simp
  have form: "0.25 * (et - ey) / (0.005 - ey) = 0.25 * r"
    unfolding r_def by (simp only: times_divide_eq_right)
  have "the_real (calculatePhi (Num et) (Num ey))
          = (if 0.005 \<le> et then 0.90 else if et \<le> ey then 0.65 else 0.65 + 0.25 * r)"
    by (simp only: calculatePhi_Num [OF assms] the_real.simps form)
  also have "\<dots> = max 0.65 (min 0.90 (0.65 + 0.25 * r))"
    using hi lo mid assms by (auto simp: max_def min_def)
  finally show ?thesis by (simp only: form)
qed

lemma cancel_factor: "k \<noteq> 0 \<Longrightarrow> w * k / k = (w :: real)"
  by simp

text \<open>
  C4. For every \<open>epsilon_y < 0.005\<close>, the interpolation formula
  \<open>0.65 + 0.25 \<times> (epsilon_t - epsilon_y) / (0.005 - epsilon_y)\<close> is exactly \<open>0.65\<close> at
  \<open>epsilon_t = epsilon_y\<close> and exactly \<open>0.90\<close> at \<open>epsilon_t = 0.005\<close>, the values
  \<open>calculatePhi\<close> returns there; \<open>calculatePhi\<close> is that formula strictly between the
  two boundaries, and is continuous in \<open>epsilon_t\<close>, at both boundaries in particular.
\<close>

theorem calculatePhi_continuous:
  assumes "ey < 0.005"
  shows "Num 0.65 + Num 0.25 * (Num ey - Num ey) / (Num 0.005 - Num ey) = Num 0.65
    \<and> Num 0.65 + Num 0.25 * (Num 0.005 - Num ey) / (Num 0.005 - Num ey) = Num 0.90
    \<and> calculatePhi (Num ey) (Num ey) = Num 0.65
    \<and> calculatePhi (Num 0.005) (Num ey) = Num 0.90
    \<and> (\<forall>et. ey < et \<and> et < 0.005 \<longrightarrow>
          calculatePhi (Num et) (Num ey)
            = Num 0.65 + Num 0.25 * (Num et - Num ey) / (Num 0.005 - Num ey))
    \<and> continuous_on UNIV (\<lambda>et. the_real (calculatePhi (Num et) (Num ey)))"
proof (intro conjI)
  have ne: "0.005 - ey \<noteq> 0" using assms by simp
  show "Num 0.65 + Num 0.25 * (Num ey - Num ey) / (Num 0.005 - Num ey) = Num 0.65"
    by (simp only: interp_eval [OF ne]) simp
  show "Num 0.65 + Num 0.25 * (Num 0.005 - Num ey) / (Num 0.005 - Num ey) = Num 0.90"
    by (simp only: interp_eval [OF ne] cancel_factor [OF ne]) simp
  show "calculatePhi (Num ey) (Num ey) = Num 0.65"
    using assms by (simp add: calculatePhi_Num)
  show "calculatePhi (Num 0.005) (Num ey) = Num 0.90"
    using assms by (simp add: calculatePhi_Num)
  show "\<forall>et. ey < et \<and> et < 0.005 \<longrightarrow>
          calculatePhi (Num et) (Num ey)
            = Num 0.65 + Num 0.25 * (Num et - Num ey) / (Num 0.005 - Num ey)"
    using assms by (simp only: interp_eval [OF ne] calculatePhi_Num) simp
  have "continuous_on UNIV (\<lambda>et. max 0.65 (min 0.90 (0.65 + 0.25 * (et - ey) / (0.005 - ey))))"
    by (intro continuous_intros) (use ne in simp_all)
  then show "continuous_on UNIV (\<lambda>et. the_real (calculatePhi (Num et) (Num ey)))"
    by (simp only: phi_clamp [OF assms])
qed

theorem calculatePhi_continuous_witness:
  "(0.002 :: real) < 0.005
   \<and> Num 0.65 + Num 0.25 * (Num 0.002 - Num 0.002) / (Num 0.005 - Num 0.002) = Num 0.65
   \<and> Num 0.65 + Num 0.25 * (Num 0.005 - Num 0.002) / (Num 0.005 - Num 0.002) = Num 0.90
   \<and> calculatePhi (Num 0.002) (Num 0.002) = Num 0.65
   \<and> calculatePhi (Num 0.005) (Num 0.002) = Num 0.90
   \<and> calculatePhi (Num 0.003) (Num 0.002) = Num (11 / 15)
   \<and> continuous_on UNIV (\<lambda>et. the_real (calculatePhi (Num et) (Num 0.002)))"
proof -
  have h: "(0.002 :: real) < 0.005" by simp
  have "calculatePhi (Num 0.003) (Num 0.002)
          = Num 0.65 + Num 0.25 * (Num 0.003 - Num 0.002) / (Num 0.005 - Num 0.002)"
    using calculatePhi_continuous [OF h] by simp
  then have "calculatePhi (Num 0.003) (Num 0.002) = Num (11 / 15)"
    by simp
  then show ?thesis
    using h calculatePhi_continuous [OF h] by blast
qed

section \<open>The degenerate section without tension steel\<close>

text \<open>
  C5, as stated: every input with \<open>As = 0\<close> and positive \<open>b\<close>, \<open>d\<close>, \<open>fc\<close>, \<open>fy\<close>, \<open>Es\<close>
  gives \<open>a = 0\<close> and \<open>rho = 0\<close>. In double precision the products \<open>b * d\<close> and
  \<open>0.85 * fc * b\<close> of small positive inputs underflow to zero, and \<open>0 / 0\<close> is NaN: with
  \<open>b = d = fc = 2\<^sup>-\<^sup>6\<^sup>0\<^sup>0\<close> (and the default \<open>fy\<close> and \<open>Es\<close>) both \<open>a\<close> and \<open>rho\<close> are NaN.
\<close>

theorem zero_steel_underflow_counterexample:
  "As (DEFAULT_BEAM_INPUT\<lparr>b := Num (1 / 2 ^ 600), d := Num (1 / 2 ^ 600),
        fc := Num (1 / 2 ^ 600), As := Num 0\<rparr>) = Num 0
   \<and> finite_positive (b (DEFAULT_BEAM_INPUT\<lparr>b := Num (1 / 2 ^ 600), d := Num (1 / 2 ^ 600),
        fc := Num (1 / 2 ^ 600), As := Num 0\<rparr>))
   \<and> finite_positive (d (DEFAULT_BEAM_INPUT\<lparr>b := Num (1 / 2 ^ 600), d := Num (1 / 2 ^ 600),
        fc := Num (1 / 2 ^ 600), As := Num 0\<rparr>))
   \<and> finite_positive (fc (DEFAULT_BEAM_INPUT\<lparr>b := Num (1 / 2 ^ 600), d := Num (1 / 2 ^ 600),
        fc := Num (1 / 2 ^ 600), As := Num 0\<rparr>))
   \<and> finite_positive (fy (DEFAULT_BEAM_INPUT\<lparr>b := Num (1 / 2 ^ 600), d := Num (1 / 2 ^ 600),
        fc := Num (1 / 2 ^ 600), As := Num 0\<rparr>))
   \<and> finite_positive (Es (DEFAULT_BEAM_INPUT\<lparr>b := Num (1 / 2 ^ 600), d := Num (1 / 2 ^ 600),
        fc := Num (1 / 2 ^ 600), As := Num 0\<rparr>))
   \<and> a_f64 (DEFAULT_BEAM_INPUT\<lparr>b := Num (1 / 2 ^ 600), d := Num (1 / 2 ^ 600),
        fc := Num (1 / 2 ^ 600), As := Num 0\<rparr>) = NaN
   \<and> rho_f64 (DEFAULT_BEAM_INPUT\<lparr>b := Num (1 / 2 ^ 600), d := Num (1 / 2 ^ 600),
        fc := Num (1 / 2 ^ 600), As := Num 0\<rparr>) = NaN"
proof -
  let ?i = "DEFAULT_BEAM_INPUT\<lparr>b := Num (1 / 2 ^ 600), d := Num (1 / 2 ^ 600),
        fc := Num (1 / 2 ^ 600), As := Num 0\<rparr>"
  have f: "As ?i = Num 0" "fy ?i = Num 60000" "fc ?i = Num (1 / 2 ^ 600)"
    "b ?i = Num (1 / 2 ^ 600)" "d ?i = Num (1 / 2 ^ 600)"
    by (simp_all add: DEFAULT_BEAM_INPUT_def)
  have pos: "finite_positive (b ?i)" "finite_positive (d ?i)" "finite_positive (fc ?i)"
    "finite_positive (fy ?i)" "finite_positive (Es ?i)"
    by (simp_all add: DEFAULT_BEAM_INPUT_def)
  have u0: "rnd (Num 0 * Num 60000) = Num 0"
    by simp
  have u1: "rnd (Num (1 / 2 ^ 600) * Num (1 / 2 ^ 600)) = Num 0"
    by (rule rnd_times, rule to_float64_subnormal) (simp_all add: round_even_def Let_def)
  have u2: "rnd (Num (7656119366529843 / 2 ^ 53) * Num (1 / 2 ^ 600)) = Num (7656119366529843 / 2 ^ 653)"
    by (rule rnd_times, rule to_float64_normal [where e = "- 601"]) (simp_all add: round_even_def Let_def)
  have u3: "rnd (Num (7656119366529843 / 2 ^ 653) * Num (1 / 2 ^ 600)) = Num 0"
    by (rule rnd_times, rule to_float64_subnormal) (simp_all add: round_even_def Let_def)
  have z: "rnd (Num 0 / Num 0) = NaN"
    by (simp add: inf_of_sign_def)
  have va: "a_f64 ?i = NaN"
    unfolding a_f64_def calculateStressBlockDepth_f64_def
    by (simp only: f lit_085 u0 u2 u3 z)
  have vr: "rho_f64 ?i = NaN"
    unfolding rho_f64_def
    by (simp only: f u1 z)
  show ?thesis
    using f(1) pos va vr by (intro conjI)
qed

text \<open>
  C5, amended. For every input with \<open>As = 0\<close> and positive \<open>b\<close>, \<open>d\<close>, \<open>fc\<close>, \<open>fy\<close>, \<open>Es\<close>
  whose products \<open>b * d\<close> and \<open>0.85 * fc * b\<close> do not underflow to zero in double precision,
  \<open>analyzeBeam\<close> returns \<open>a = 0\<close>, \<open>c = 0\<close>, \<open>epsilon_t = +\<infinity>\<close> (the \<open>c \<le> 0\<close> sentinel
  of \<open>calculateTensionStrain\<close>), \<open>rho = 0 < rho_min\<close>, \<open>isAdequatelyReinforced = false\<close>,
  and a warning list that contains the minimum-reinforcement warning. (The function is
  total: no step of it can raise.) Under the same hypotheses the double-precision
  values of \<open>a\<close>, \<open>c\<close>, \<open>epsilon_t\<close> and \<open>rho\<close> are \<open>0\<close>, \<open>0\<close>, \<open>+\<infinity>\<close> and \<open>0\<close> as well.
\<close>

theorem analyzeBeam_zero_steel:
  assumes "As inp = Num 0"
    and "finite_positive (b inp)" and "finite_positive (d inp)" and "finite_positive (fc inp)"
    and "finite_positive (fy inp)" and "finite_positive (Es inp)"
    and "Num 0 < rnd (b inp * d inp)"
    and "Num 0 < rnd (rnd (lit 0.85 * fc inp) * b inp)"
  shows "a (analyzeBeam fmt inp) = Num 0
    \<and> c (analyzeBeam fmt inp) = Num 0
    \<and> epsilon_t (analyzeBeam fmt inp) = PosInf
    \<and> rho (analyzeBeam fmt inp) = Num 0
    \<and> rho (analyzeBeam fmt inp) < rho_min (analyzeBeam fmt inp)
    \<and> isAdequatelyReinforced (analyzeBeam fmt inp) = False
    \<and> msg_below_minimum fmt (rho (analyzeBeam fmt inp)) (rho_min (analyzeBeam fmt inp))
        \<in> set (warnings (analyzeBeam fmt inp))
    \<and> a_f64 inp = Num 0
    \<and> c_f64 inp = Num 0
    \<and> epsilon_t_f64 inp = PosInf
    \<and> rho_f64 inp = Num 0"
proof -
  from assms obtain w dd f y where
    in_b: "b inp = Num w" "0 < w" and in_d: "d inp = Num dd" "0 < dd" and
    in_fc: "fc inp = Num f" "0 < f" and in_fy: "fy inp = Num y" "0 < y"
    by (auto elim!: finite_positiveE)
  obtain \<beta> where \<beta>: "calculateBeta1 (Num f) = Num \<beta>" "0.65 \<le> \<beta>"
    using calculateBeta1_Num by blast
  obtain m where m: "calculateRhoMin (Num f) (Num y) = Num m" "0 < m"
    using rho_min_Num [OF in_fc(2) in_fy(2)] by blast
  have a0: "a (analyzeBeam fmt inp) = Num 0"
    using in_fc in_b by (simp add: analyzeBeam_a assms(1) in_fy stress_block_Num)
  have c0: "c (analyzeBeam fmt inp) = Num 0"
    using \<beta> by (simp add: analyzeBeam_c a0 analyzeBeam_beta1 in_fc neutral_axis_Num)
  have e: "epsilon_t (analyzeBeam fmt inp) = PosInf"
    by (simp add: analyzeBeam_epsilon_t c0 tension_strain_nonpos)
  have r0: "rho (analyzeBeam fmt inp) = Num 0"
    using in_b in_d by (simp add: analyzeBeam_rho assms(1))
  have rm: "rho_min (analyzeBeam fmt inp) = Num m"
    by (simp add: analyzeBeam_rho_min in_fc in_fy m)
  have lt: "rho (analyzeBeam fmt inp) < rho_min (analyzeBeam fmt inp)"
    using m by (simp add: r0 rm)
  have adq: "isAdequatelyReinforced (analyzeBeam fmt inp) = False"
    using m by (simp add: analyzeBeam_isAdequatelyReinforced r0 rm)
  have msg: "msg_below_minimum fmt (rho (analyzeBeam fmt inp)) (rho_min (analyzeBeam fmt inp))
        \<in> set (warnings (analyzeBeam fmt inp))"
    by (simp add: analyzeBeam_warnings set_push_when adq)
  obtain \<gamma> where \<gamma>: "calculateBeta1_f64 (Num f) = Num \<gamma>" "0 < \<gamma>"
    by (rule calculateBeta1_f64_positive)
  have "rnd (As inp * fy inp) = Num 0"
    by (simp add: assms(1) in_fy)
  then have a1: "a_f64 inp = Num 0"
    using assms(8)
    by (simp add: a_f64_def calculateStressBlockDepth_f64_def zero_divide_number)
  have c1: "c_f64 inp = Num 0"
    using \<gamma> by (simp add: c_f64_def calculateNeutralAxisDepth_f64_def a1 in_fc)
  have e1: "epsilon_t_f64 inp = PosInf"
    by (simp add: epsilon_t_f64_def calculateTensionStrain_f64_def c1)
  have r1: "rho_f64 inp = Num 0"
    using assms(7) by (simp add: rho_f64_def assms(1) zero_divide_number)
  show ?thesis
    using a0 c0 e r0 lt adq msg a1 c1 e1 r1 by (intro conjI)
qed

theorem analyzeBeam_zero_steel_witness:
  "As (DEFAULT_BEAM_INPUT\<lparr>As := Num 0\<rparr>) = Num 0
   \<and> rnd (b (DEFAULT_BEAM_INPUT\<lparr>As := Num 0\<rparr>) * d (DEFAULT_BEAM_INPUT\<lparr>As := Num 0\<rparr>))
       = Num 258
   \<and> rnd (rnd (lit 0.85 * fc (DEFAULT_BEAM_INPUT\<lparr>As := Num 0\<rparr>))
        * b (DEFAULT_BEAM_INPUT\<lparr>As := Num 0\<rparr>)) = Num 40800
   \<and> a (analyzeBeam toFixed_dec (DEFAULT_BEAM_INPUT\<lparr>As := Num 0\<rparr>)) = Num 0
   \<and> c (analyzeBeam toFixed_dec (DEFAULT_BEAM_INPUT\<lparr>As := Num 0\<rparr>)) = Num 0
   \<and> epsilon_t (analyzeBeam toFixed_dec (DEFAULT_BEAM_INPUT\<lparr>As := Num 0\<rparr>)) = PosInf
   \<and> rho (analyzeBeam toFixed_dec (DEFAULT_BEAM_INPUT\<lparr>As := Num 0\<rparr>)) = Num 0
   \<and> rho_min (analyzeBeam toFixed_dec (DEFAULT_BEAM_INPUT\<lparr>As := Num 0\<rparr>)) = Num (1 / 300)
   \<and> isAdequatelyReinforced (analyzeBeam toFixed_dec (DEFAULT_BEAM_INPUT\<lparr>As := Num 0\<rparr>)) = False
   \<and> ''Warning: Reinforcement ratio (0.000%) is less than minimum (0.333%). Per ACI 318, As,min requirements may govern.''
       \<in> set (warnings (analyzeBeam toFixed_dec (DEFAULT_BEAM_INPUT\<lparr>As := Num 0\<rparr>)))
   \<and> a_f64 (DEFAULT_BEAM_INPUT\<lparr>As := Num 0\<rparr>) = Num 0
   \<and> c_f64 (DEFAULT_BEAM_INPUT\<lparr>As := Num 0\<rparr>) = Num 0
   \<and> epsilon_t_f64 (DEFAULT_BEAM_INPUT\<lparr>As := Num 0\<rparr>) = PosInf
   \<and> rho_f64 (DEFAULT_BEAM_INPUT\<lparr>As := Num 0\<rparr>) = Num 0"
proof -
  let ?inp = "DEFAULT_BEAM_INPUT\<lparr>As := Num 0\<rparr>"
  have f: "fc ?inp = Num 4000" "b ?inp = Num 12" "d ?inp = Num 21.5"
    by (simp_all add: DEFAULT_BEAM_INPUT_def)
  have k: "rnd (b ?inp * d ?inp) = Num 258"
    "rnd (rnd (lit 0.85 * fc ?inp) * b ?inp) = Num 40800"
    by (simp_all only: f default_products)
  have hyps: "As ?inp = Num 0" "finite_positive (b ?inp)" "finite_positive (d ?inp)"
    "finite_positive (fc ?inp)" "finite_positive (fy ?inp)" "finite_positive (Es ?inp)"
    by (simp_all add: DEFAULT_BEAM_INPUT_def)
  have prods: "Num 0 < rnd (b ?inp * d ?inp)"
    "Num 0 < rnd (rnd (lit 0.85 * fc ?inp) * b ?inp)"
    unfolding k by simp_all
  note inst = analyzeBeam_zero_steel [OF hyps prods, of toFixed_dec]
  have "max (sqrt 4000 / 20000) (1 / 300) = 1 / 300"
    using sqrt_4000 by simp
  then have rm: "rho_min (analyzeBeam toFixed_dec ?inp) = Num (1 / 300)"
    by (simp add: analyzeBeam_rho_min DEFAULT_BEAM_INPUT_def calculateRhoMin_def Let_def)
  have r0: "rho (analyzeBeam toFixed_dec ?inp) = Num 0"
    using inst by blast
  have msg: "msg_below_minimum toFixed_dec (Num 0) (Num (1 / 300))
       = ''Warning: Reinforcement ratio (0.000%) is less than minimum (0.333%). Per ACI 318, As,min requirements may govern.''"
    by (simp add: msg_below_minimum_def fixed_digits_examples)
  have "msg_below_minimum toFixed_dec (Num 0) (Num (1 / 300))
          \<in> set (warnings (analyzeBeam toFixed_dec ?inp))"
    using inst by (simp only: r0 rm)
  then have "''Warning: Reinforcement ratio (0.000%) is less than minimum (0.333%). Per ACI 318, As,min requirements may govern.''
       \<in> set (warnings (analyzeBeam toFixed_dec ?inp))"
    by (simp only: msg)
  with inst hyps(1) k rm show ?thesis by blast
qed

section \<open>The warning list\<close>

text \<open>
  C6. For every input, the warning list returned by \<open>analyzeBeam\<close> is exactly the ordered
  subsequence of the seven messages, appended in this order: (1) steel does not yield,
  (2) ratio below minimum, (3) ratio above maximum, (4) compression-controlled,
  (5) the transition note beginning \<open>Note:\<close>, (6) \<open>a > d\<close>, (7) \<open>c \<ge> d\<close>; each is present
  if and only if its trigger holds, and only messages (6) and (7) begin with the word
  \<open>Error\<close>. Messages (2) and (3) carry the two ratios as formatted by \<open>toFixed\<close>.
\<close>

theorem warnings_ordered:
  "warnings (analyzeBeam fmt inp) =
     (if \<not> steelYields (analyzeBeam fmt inp) then [msg_steel_not_yield] else [])
     @ (if \<not> isAdequatelyReinforced (analyzeBeam fmt inp)
        then [msg_below_minimum fmt (rho (analyzeBeam fmt inp)) (rho_min (analyzeBeam fmt inp))]
        else [])
     @ (if \<not> isNotOverReinforced (analyzeBeam fmt inp)
        then [msg_above_maximum fmt (rho (analyzeBeam fmt inp)) (rho_max (analyzeBeam fmt inp))]
        else [])
     @ (if sectionType (analyzeBeam fmt inp) = compression_controlled
        then [msg_compression_controlled] else [])
     @ (if sectionType (analyzeBeam fmt inp) = transition then [msg_transition] else [])
     @ (if a (analyzeBeam fmt inp) > d inp then [msg_stress_block] else [])
     @ (if c (analyzeBeam fmt inp) \<ge> d inp then [msg_neutral_axis] else [])
   \<and> (msg_steel_not_yield \<in> set (warnings (analyzeBeam fmt inp))
        \<longleftrightarrow> \<not> steelYields (analyzeBeam fmt inp))
   \<and> (msg_below_minimum fmt (rho (analyzeBeam fmt inp)) (rho_min (analyzeBeam fmt inp))
          \<in> set (warnings (analyzeBeam fmt inp))
        \<longleftrightarrow> \<not> isAdequatelyReinforced (analyzeBeam fmt inp))
   \<and> (msg_above_maximum fmt (rho (analyzeBeam fmt inp)) (rho_max (analyzeBeam fmt inp))
          \<in> set (warnings (analyzeBeam fmt inp))
        \<longleftrightarrow> \<not> isNotOverReinforced (analyzeBeam fmt inp))
   \<and> (msg_compression_controlled \<in> set (warnings (analyzeBeam fmt inp))
        \<longleftrightarrow> sectionType (analyzeBeam fmt inp) = compression_controlled)
   \<and> (msg_transition \<in> set (warnings (analyzeBeam fmt inp))
        \<longleftrightarrow> sectionType (analyzeBeam fmt inp) = transition)
   \<and> (msg_stress_block \<in> set (warnings (analyzeBeam fmt inp))
        \<longleftrightarrow> a (analyzeBeam fmt inp) > d inp)
   \<and> (msg_neutral_axis \<in> set (warnings (analyzeBeam fmt inp))
        \<longleftrightarrow> c (analyzeBeam fmt inp) \<ge> d inp)
   \<and> prefix ''Error'' msg_stress_block
   \<and> prefix ''Error'' msg_neutral_axis
   \<and> \<not> prefix ''Error'' msg_steel_not_yield
   \<and> \<not> prefix ''Error''
         (msg_below_minimum fmt (rho (analyzeBeam fmt inp)) (rho_min (analyzeBeam fmt inp)))
   \<and> \<not> prefix ''Error''
         (msg_above_maximum fmt (rho (analyzeBeam fmt inp)) (rho_max (analyzeBeam fmt inp)))
   \<and> \<not> prefix ''Error'' msg_compression_controlled
   \<and> \<not> prefix ''Error'' msg_transition
   \<and> prefix ''Note:'' msg_transition"
proof -
  note mem = set_append Un_iff mem_set_optional msg_distinct msg_distinct [symmetric] simp_thms
  have "msg_steel_not_yield \<in> set (warnings (analyzeBeam fmt inp))
        \<longleftrightarrow> \<not> steelYields (analyzeBeam fmt inp)"
    by (subst warnings_concat) (simp only: mem)
  moreover have
    "msg_below_minimum fmt (rho (analyzeBeam fmt inp)) (rho_min (analyzeBeam fmt inp))
          \<in> set (warnings (analyzeBeam fmt inp))
        \<longleftrightarrow> \<not> isAdequatelyReinforced (analyzeBeam fmt inp)"
    by (subst warnings_concat) (simp only: mem)
  moreover have
    "msg_above_maximum fmt (rho (analyzeBeam fmt inp)) (rho_max (analyzeBeam fmt inp))
          \<in> set (warnings (analyzeBeam fmt inp))
        \<longleftrightarrow> \<not> isNotOverReinforced (analyzeBeam fmt inp)"
    by (subst warnings_concat) (simp only: mem)
  moreover have "msg_compression_controlled \<in> set (warnings (analyzeBeam fmt inp))
        \<longleftrightarrow> sectionType (analyzeBeam fmt inp) = compression_controlled"
    by (subst warnings_concat) (simp only: mem)
  moreover have "msg_transition \<in> set (warnings (analyzeBeam fmt inp))
        \<longleftrightarrow> sectionType (analyzeBeam fmt inp) = transition"
    by (subst warnings_concat) (simp only: mem)
  moreover have "msg_stress_block \<in> set (warnings (analyzeBeam fmt inp))
        \<longleftrightarrow> a (analyzeBeam fmt inp) > d inp"
    by (subst warnings_concat) (simp only: mem)
  moreover have "msg_neutral_axis \<in> set (warnings (analyzeBeam fmt inp))
        \<longleftrightarrow> c (analyzeBeam fmt inp) \<ge> d inp"
    by (subst warnings_concat) (simp only: mem)
  ultimately show ?thesis
    using warnings_concat [of fmt inp] msg_prefixes by blast
qed

text \<open>
  The engine run on the default section with \<open>20\<close> square inches of steel: five of the
  seven messages, in the order above.
\<close>

theorem warnings_ordered_witness:
  "warnings (analyzeBeam toFixed_dec (DEFAULT_BEAM_INPUT\<lparr>As := Num 20\<rparr>)) =
     [''Warning: Tension steel does not yield at ultimate. Section is over-reinforced.'',
      ''Warning: Reinforcement ratio (7.752%) exceeds maximum (2.064%). Section may not have adequate ductility.'',
      ''Warning: Section is compression-controlled. Consider reducing reinforcement for better ductility.'',
      ''Error: Stress block depth exceeds effective depth. Check input values.'',
      ''Error: Neutral axis is at or below tension steel. Invalid configuration.'']"
proof -
  let ?r = "analyzeBeam toFixed_dec (DEFAULT_BEAM_INPUT\<lparr>As := Num 20\<rparr>)"
  have inp: "b (DEFAULT_BEAM_INPUT\<lparr>As := Num 20\<rparr>) = Num 12"
    "d (DEFAULT_BEAM_INPUT\<lparr>As := Num 20\<rparr>) = Num 21.5"
    "fc (DEFAULT_BEAM_INPUT\<lparr>As := Num 20\<rparr>) = Num 4000"
    "fy (DEFAULT_BEAM_INPUT\<lparr>As := Num 20\<rparr>) = Num 60000"
    "Es (DEFAULT_BEAM_INPUT\<lparr>As := Num 20\<rparr>) = Num 29000000"
    "As (DEFAULT_BEAM_INPUT\<lparr>As := Num 20\<rparr>) = Num 20"
    by (simp_all add: DEFAULT_BEAM_INPUT_def)
  note in_defs = inp EPSILON_CU_def Let_def
  have a: "a ?r = Num (500 / 17)"
    by (simp add: analyzeBeam_a calculateStressBlockDepth_def in_defs)
  have beta: "beta1 ?r = Num 0.85"
    by (simp add: analyzeBeam_beta1 calculateBeta1_def in_defs)
  have c: "c ?r = Num (10000 / 289)"
    by (simp add: analyzeBeam_c a beta calculateNeutralAxisDepth_def)
  have et: "epsilon_t ?r = Num (- 22719 / 20000000)"
    by (simp add: analyzeBeam_epsilon_t c calculateTensionStrain_def in_defs)
  have ey: "epsilon_y ?r = Num (3 / 1450)"
    by (simp add: analyzeBeam_epsilon_y calculateEpsilonY_def in_defs)
  have rho: "rho ?r = Num (10 / 129)"
    by (simp add: analyzeBeam_rho in_defs)
  have rho_max: "rho_max ?r = Num (289 / 14000)"
    by (simp add: analyzeBeam_rho_max beta calculateRhoMax_def in_defs)
  have "max (sqrt 4000 / 20000) (1 / 300) = 1 / 300"
    using sqrt_4000 by simp
  then have rho_min: "rho_min ?r = Num (1 / 300)"
    by (simp add: analyzeBeam_rho_min calculateRhoMin_def in_defs)
  have flags: "\<not> steelYields ?r" "isAdequatelyReinforced ?r" "\<not> isNotOverReinforced ?r"
    "sectionType ?r = compression_controlled" "a ?r > d (DEFAULT_BEAM_INPUT\<lparr>As := Num 20\<rparr>)"
    "c ?r \<ge> d (DEFAULT_BEAM_INPUT\<lparr>As := Num 20\<rparr>)"
    by (simp_all add: analyzeBeam_steelYields analyzeBeam_isAdequatelyReinforced
        analyzeBeam_isNotOverReinforced analyzeBeam_sectionType classifySection_def
        a c et ey rho rho_max rho_min inp)
  have msg: "msg_above_maximum toFixed_dec (Num (10 / 129)) (Num (289 / 14000))
    = ''Warning: Reinforcement ratio (7.752%) exceeds maximum (2.064%). Section may not have adequate ductility.''"
    by (simp add: msg_above_maximum_def fixed_digits_examples)
  have "warnings ?r =
      [msg_steel_not_yield, msg_above_maximum toFixed_dec (rho ?r) (rho_max ?r),
       msg_compression_controlled, msg_stress_block, msg_neutral_axis]"
    by (subst warnings_ordered [THEN conjunct1])
      (simp only: flags if_True if_False simp_thms SectionType.distinct append_Nil append_Cons)
  then show ?thesis
    by (simp only: rho rho_max msg msg_steel_not_yield_def msg_compression_controlled_def
        msg_stress_block_def msg_neutral_axis_def)
qed

section \<open>Consistency of the stored checks\<close>

text \<open>
  C7. In every record produced by \<open>analyzeBeam\<close> the stored boolean checks agree with
  the stored numeric fields of the same record: \<open>steelYields = (epsilon_t \<ge> epsilon_y)\<close>,
  \<open>isAdequatelyReinforced = (rho \<ge> rho_min)\<close> and
  \<open>isNotOverReinforced = (rho \<le> rho_max)\<close>.
\<close>

theorem analyzeBeam_checks_consistent:
  "steelYields (analyzeBeam fmt inp)
     = (epsilon_t (analyzeBeam fmt inp) \<ge> epsilon_y (analyzeBeam fmt inp))
   \<and> isAdequatelyReinforced (analyzeBeam fmt inp)
     = (rho (analyzeBeam fmt inp) \<ge> rho_min (analyzeBeam fmt inp))
   \<and> isNotOverReinforced (analyzeBeam fmt inp)
     = (rho (analyzeBeam fmt inp) \<le> rho_max (analyzeBeam fmt inp))"
  by (simp only: analyzeBeam_steelYields analyzeBeam_isAdequatelyReinforced
      analyzeBeam_isNotOverReinforced simp_thms)

section \<open>Monotonicity in the steel area\<close>




section \<open>Outcomes of the required-steel solver\<close>

text \<open>
  C9, as stated: the solver returns the invalid result with \<open>As_required = 0\<close> when the
  radicand \<open>1 - 2R_n/(0.85 fc)\<close> is negative or \<open>rho_required < 0\<close>; the invalid result
  with \<open>As_required = rho_required \<times> b \<times> d\<close> when \<open>rho_required\<close> is non-negative and
  exceeds \<open>rho_max\<close>; and the valid result with message \<open>OK\<close> otherwise. The last clause
  fails where \<open>rho_required\<close> is NaN without a negative radicand: for a zero moment on
  a section of zero depth, \<open>R_n = 0/0\<close> is NaN, so is the radicand and so is
  \<open>rho_required\<close>; none of the first two conditions holds, and the solver, which tests
  \<open>isNaN(rho_required)\<close>, returns the invalid result.
\<close>

theorem calculateRequiredSteel_nan_counterexample:
  "\<not> required_radicand (Num 0) (Num 12) (Num 0) (Num 4000) < Num 0
   \<and> \<not> required_rho (Num 0) (Num 12) (Num 0) (Num 4000) (Num 60000) < Num 0
   \<and> \<not> Num 0 \<le> required_rho (Num 0) (Num 12) (Num 0) (Num 4000) (Num 60000)
   \<and> \<not> isValid
         (calculateRequiredSteel toFixed_dec (Num 0) (Num 12) (Num 0) (Num 4000) (Num 60000))
   \<and> message
         (calculateRequiredSteel toFixed_dec (Num 0) (Num 12) (Num 0) (Num 4000) (Num 60000))
       = ''Section cannot carry the applied moment. Increase section size.''
   \<and> message
         (calculateRequiredSteel toFixed_dec (Num 0) (Num 12) (Num 0) (Num 4000) (Num 60000))
       \<noteq> ''OK''"
proof -
  have r: "required_R_n (Num 0) (Num 12) (Num 0) = NaN"
    by (simp add: required_R_n_def inf_of_sign_def)
  have rad: "required_radicand (Num 0) (Num 12) (Num 0) (Num 4000) = NaN"
    by (simp add: required_radicand_def r)
  have rho: "required_rho (Num 0) (Num 12) (Num 0) (Num 4000) (Num 60000) = NaN"
    by (simp add: required_rho_def rad)
  show ?thesis
    by (simp add: calculateRequiredSteel_cases rad rho)
qed

text \<open>
  C9, amended: the solver is total. When \<open>rho_required\<close> is NaN (as it is whenever the
  radicand is negative) or \<open>rho_required < 0\<close>, it returns \<open>As_required = 0\<close>, not valid,
  with a non-empty message; when \<open>rho_required\<close> is non-negative and exceeds \<open>rho_max\<close>
  (computed with a fresh \<open>beta1\<close>), not valid, with \<open>As_required = rho_required \<times> b \<times> d\<close>;
  otherwise valid, with message \<open>OK\<close>. For a finite positive \<open>fc\<close> the radicand is negative
  exactly when \<open>2 R_n > 0.85 fc\<close>.
\<close>

theorem calculateRequiredSteel_outcomes:
  "(required_radicand Mu wb de cs < Num 0 \<longrightarrow> isNaN (required_rho Mu wb de cs ys))
   \<and> (isNaN (required_rho Mu wb de cs ys) \<or> required_rho Mu wb de cs ys < Num 0 \<longrightarrow>
        As_required (calculateRequiredSteel fmt Mu wb de cs ys) = Num 0
        \<and> \<not> isValid (calculateRequiredSteel fmt Mu wb de cs ys)
        \<and> message (calculateRequiredSteel fmt Mu wb de cs ys) \<noteq> [])
   \<and> (Num 0 \<le> required_rho Mu wb de cs ys
        \<and> required_rho Mu wb de cs ys > calculateRhoMax cs ys (calculateBeta1 cs) EPSILON_CU \<longrightarrow>
        As_required (calculateRequiredSteel fmt Mu wb de cs ys)
          = required_rho Mu wb de cs ys * wb * de
        \<and> \<not> isValid (calculateRequiredSteel fmt Mu wb de cs ys)
        \<and> message (calculateRequiredSteel fmt Mu wb de cs ys) \<noteq> [])
   \<and> (\<not> (isNaN (required_rho Mu wb de cs ys) \<or> required_rho Mu wb de cs ys < Num 0)
        \<and> \<not> required_rho Mu wb de cs ys > calculateRhoMax cs ys (calculateBeta1 cs) EPSILON_CU \<longrightarrow>
        As_required (calculateRequiredSteel fmt Mu wb de cs ys)
          = required_rho Mu wb de cs ys * wb * de
        \<and> isValid (calculateRequiredSteel fmt Mu wb de cs ys)
        \<and> message (calculateRequiredSteel fmt Mu wb de cs ys) = ''OK'')
   \<and> (\<forall>f. cs = Num f \<and> 0 < f \<longrightarrow>
        (required_radicand Mu wb de cs < Num 0
           \<longleftrightarrow> Num 2 * required_R_n Mu wb de > Num 0.85 * cs))"
proof (intro conjI impI allI)
  assume "required_radicand Mu wb de cs < Num 0"
  then show "isNaN (required_rho Mu wb de cs ys)"
    by (simp add: required_rho_def sqrt_negative)
next
  assume "isNaN (required_rho Mu wb de cs ys) \<or> required_rho Mu wb de cs ys < Num 0"
  then have "calculateRequiredSteel fmt Mu wb de cs ys =
      \<lparr> As_required = Num 0, isValid = False,
        message = ''Section cannot carry the applied moment. Increase section size.'' \<rparr>"
    by (simp only: calculateRequiredSteel_cases if_True)
  then show "As_required (calculateRequiredSteel fmt Mu wb de cs ys) = Num 0"
    and "\<not> isValid (calculateRequiredSteel fmt Mu wb de cs ys)"
    and "message (calculateRequiredSteel fmt Mu wb de cs ys) \<noteq> []"
    by simp_all
next
  assume "Num 0 \<le> required_rho Mu wb de cs ys
        \<and> required_rho Mu wb de cs ys > calculateRhoMax cs ys (calculateBeta1 cs) EPSILON_CU"
  then have "\<not> (isNaN (required_rho Mu wb de cs ys) \<or> required_rho Mu wb de cs ys < Num 0)"
    and "required_rho Mu wb de cs ys > calculateRhoMax cs ys (calculateBeta1 cs) EPSILON_CU"
    by (cases "required_rho Mu wb de cs ys"; auto)+
  then have "calculateRequiredSteel fmt Mu wb de cs ys =
      \<lparr> As_required = required_rho Mu wb de cs ys * wb * de, isValid = False,
        message = ''Required reinforcement ratio (''
               @ fmt (required_rho Mu wb de cs ys * Num 100) 3
               @ ''%) exceeds maximum (''
               @ fmt (calculateRhoMax cs ys (calculateBeta1 cs) EPSILON_CU * Num 100) 3
               @ ''%).'' \<rparr>"
    by (simp only: calculateRequiredSteel_cases if_True if_False)
  then show "As_required (calculateRequiredSteel fmt Mu wb de cs ys)
          = required_rho Mu wb de cs ys * wb * de"
    and "\<not> isValid (calculateRequiredSteel fmt Mu wb de cs ys)"
    and "message (calculateRequiredSteel fmt Mu wb de cs ys) \<noteq> []"
    by simp_all
next
  assume "\<not> (isNaN (required_rho Mu wb de cs ys) \<or> required_rho Mu wb de cs ys < Num 0)
        \<and> \<not> required_rho Mu wb de cs ys > calculateRhoMax cs ys (calculateBeta1 cs) EPSILON_CU"
  then have "calculateRequiredSteel fmt Mu wb de cs ys =
      \<lparr> As_required = required_rho Mu wb de cs ys * wb * de, isValid = True,
        message = ''OK'' \<rparr>"
    by (simp only: calculateRequiredSteel_cases if_False)
  then show "As_required (calculateRequiredSteel fmt Mu wb de cs ys)
          = required_rho Mu wb de cs ys * wb * de"
    and "isValid (calculateRequiredSteel fmt Mu wb de cs ys)"
    and "message (calculateRequiredSteel fmt Mu wb de cs ys) = ''OK''"
    by simp_all
next
  fix f assume "cs = Num f \<and> 0 < f"
  then show "required_radicand Mu wb de cs < Num 0
           \<longleftrightarrow> Num 2 * required_R_n Mu wb de > Num 0.85 * cs"
    by (simp only: required_radicand_def radicand_negative_iff)
qed

theorem calculateRequiredSteel_outcomes_witness:
  "required_radicand (Num 100000000) (Num 10) (Num 20) (Num 4000) < Num 0
   \<and> Num 2 * required_R_n (Num 100000000) (Num 10) (Num 20) > Num 0.85 * Num 4000
   \<and> isNaN (required_rho (Num 100000000) (Num 10) (Num 20) (Num 4000) (Num 60000))
   \<and> As_required (calculateRequiredSteel toFixed_dec
        (Num 100000000) (Num 10) (Num 20) (Num 4000) (Num 60000)) = Num 0
   \<and> \<not> isValid (calculateRequiredSteel toFixed_dec
        (Num 100000000) (Num 10) (Num 20) (Num 4000) (Num 60000))
   \<and> message (calculateRequiredSteel toFixed_dec
        (Num 100000000) (Num 10) (Num 20) (Num 4000) (Num 60000)) \<noteq> []
   \<and> required_rho (Num 4590000) (Num 10) (Num 20) (Num 4000) (Num 60000) = Num (17 / 600)
   \<and> calculateRhoMax (Num 4000) (Num 60000) (calculateBeta1 (Num 4000)) EPSILON_CU
        = Num (289 / 14000)
   \<and> As_required (calculateRequiredSteel toFixed_dec
        (Num 4590000) (Num 10) (Num 20) (Num 4000) (Num 60000)) = Num (17 / 3)
   \<and> \<not> isValid (calculateRequiredSteel toFixed_dec
        (Num 4590000) (Num 10) (Num 20) (Num 4000) (Num 60000))
   \<and> required_rho (Num 1162800) (Num 10) (Num 20) (Num 4000) (Num 60000) = Num (17 / 3000)
   \<and> As_required (calculateRequiredSteel toFixed_dec
        (Num 1162800) (Num 10) (Num 20) (Num 4000) (Num 60000)) = Num (17 / 15)
   \<and> isValid (calculateRequiredSteel toFixed_dec
        (Num 1162800) (Num 10) (Num 20) (Num 4000) (Num 60000))
   \<and> message (calculateRequiredSteel toFixed_dec
        (Num 1162800) (Num 10) (Num 20) (Num 4000) (Num 60000)) = ''OK''"
proof -
  note defs = required_rho_def required_radicand_def required_R_n_def
  have radA: "required_radicand (Num 100000000) (Num 10) (Num 20) (Num 4000) < Num 0"
    by (simp add: defs)
  have s1: "sqrt (1 / 4) = 1 / 2" and s2: "sqrt (81 / 100) = 9 / 10"
    by (simp_all add: real_sqrt_divide)
  have rhoB: "required_rho (Num 4590000) (Num 10) (Num 20) (Num 4000) (Num 60000) = Num (17 / 600)"
    by (simp add: defs s1)
  have rhoC: "required_rho (Num 1162800) (Num 10) (Num 20) (Num 4000) (Num 60000) = Num (17 / 3000)"
    by (simp add: defs s2)
  have rmax: "calculateRhoMax (Num 4000) (Num 60000) (calculateBeta1 (Num 4000)) EPSILON_CU
        = Num (289 / 14000)"
    by (simp add: calculateRhoMax_def calculateBeta1_def EPSILON_CU_def Let_def)
  note A = calculateRequiredSteel_outcomes [where Mu = "Num 100000000" and wb = "Num 10"
      and de = "Num 20" and cs = "Num 4000" and ys = "Num 60000" and fmt = toFixed_dec]
  note B = calculateRequiredSteel_outcomes [where Mu = "Num 4590000" and wb = "Num 10"
      and de = "Num 20" and cs = "Num 4000" and ys = "Num 60000" and fmt = toFixed_dec]
  note C = calculateRequiredSteel_outcomes [where Mu = "Num 1162800" and wb = "Num 10"
      and de = "Num 20" and cs = "Num 4000" and ys = "Num 60000" and fmt = toFixed_dec]
  have a: "Num 2 * required_R_n (Num 100000000) (Num 10) (Num 20) > Num 0.85 * Num 4000"
    "isNaN (required_rho (Num 100000000) (Num 10) (Num 20) (Num 4000) (Num 60000))"
    "As_required (calculateRequiredSteel toFixed_dec
        (Num 100000000) (Num 10) (Num 20) (Num 4000) (Num 60000)) = Num 0"
    "\<not> isValid (calculateRequiredSteel toFixed_dec
        (Num 100000000) (Num 10) (Num 20) (Num 4000) (Num 60000))"
    "message (calculateRequiredSteel toFixed_dec
        (Num 100000000) (Num 10) (Num 20) (Num 4000) (Num 60000)) \<noteq> []"
    using A radA by simp_all
  have b: "As_required (calculateRequiredSteel toFixed_dec
        (Num 4590000) (Num 10) (Num 20) (Num 4000) (Num 60000)) = Num (17 / 3)"
    "\<not> isValid (calculateRequiredSteel toFixed_dec
        (Num 4590000) (Num 10) (Num 20) (Num 4000) (Num 60000))"
    using B by (simp_all add: rhoB rmax)
  have c: "As_required (calculateRequiredSteel toFixed_dec
        (Num 1162800) (Num 10) (Num 20) (Num 4000) (Num 60000)) = Num (17 / 15)"
    "isValid (calculateRequiredSteel toFixed_dec
        (Num 1162800) (Num 10) (Num 20) (Num 4000) (Num 60000))"
    "message (calculateRequiredSteel toFixed_dec
        (Num 1162800) (Num 10) (Num 20) (Num 4000) (Num 60000)) = ''OK''"
    using C by (simp_all add: rhoC rmax)
  show ?thesis
    using radA a rhoB rmax b rhoC c by blast
qed

section \<open>Independence of the compression-steel parameters\<close>

text \<open>
  C10. Two inputs that agree on \<open>b\<close>, \<open>d\<close>, \<open>fc\<close>, \<open>fy\<close>, \<open>Es\<close> and \<open>As\<close> give
  the same result in every field, however they differ in \<open>h\<close>, \<open>d_prime\<close> and
  \<open>As_prime\<close>.
\<close>

theorem analyzeBeam_ignores_compression_steel:
  assumes "b inp1 = b inp2" and "d inp1 = d inp2" and "fc inp1 = fc inp2"
    and "fy inp1 = fy inp2" and "Es inp1 = Es inp2" and "As inp1 = As inp2"
  shows "analyzeBeam fmt inp1 = analyzeBeam fmt inp2"
  by (simp only: analyzeBeam_def assms)

theorem analyzeBeam_ignores_compression_steel_witness:
  "DEFAULT_BEAM_INPUT
     \<noteq> DEFAULT_BEAM_INPUT\<lparr> h := Num 30, d_prime := Num 3, As_prime := Num 1.58 \<rparr>
   \<and> analyzeBeam toFixed_dec DEFAULT_BEAM_INPUT
     = analyzeBeam toFixed_dec
         (DEFAULT_BEAM_INPUT\<lparr> h := Num 30, d_prime := Num 3, As_prime := Num 1.58 \<rparr>)"
proof
  show "DEFAULT_BEAM_INPUT
     \<noteq> DEFAULT_BEAM_INPUT\<lparr> h := Num 30, d_prime := Num 3, As_prime := Num 1.58 \<rparr>"
    by (simp add: DEFAULT_BEAM_INPUT_def)
  show "analyzeBeam toFixed_dec DEFAULT_BEAM_INPUT
     = analyzeBeam toFixed_dec
         (DEFAULT_BEAM_INPUT\<lparr> h := Num 30, d_prime := Num 3, As_prime := Num 1.58 \<rparr>)"
    by (rule analyzeBeam_ignores_compression_steel) simp_all
qed

end
